theory Spec2Isabelle
  imports Complex_Main "HOL-Library.AList"
begin

section \<open>Values, dictionaries and the object store\<close>

text \<open>
  The Python code passes JSON-like data around: tool parameters, tool results, the entries
  of the working store, the ambient context. A value that nobody mutates in place is
  modelled by value, as a \<open>json\<close> tree. A Python dict is an association list in
  insertion order: \<open>d.get(k)\<close> is \<open>map_of d k\<close>, \<open>d[k] = v\<close> is \<open>AList.update k v d\<close>
  (the key keeps its place, a new key goes to the end) and \<open>d.pop(k, None)\<close> is
  \<open>AList.delete k d\<close>.
\<close>

datatype json = JNull | JBool bool | JInt int | JReal real | JStr string
  | JList "json list" | JDict "(string \<times> json) list"

type_synonym dict = "(string \<times> json) list"

type_synonym addr = nat

definition dict_update :: "dict \<Rightarrow> dict \<Rightarrow> dict" where
  \<comment> \<open>\<open>d.update(u)\<close>\<close>
  "dict_update d u = fold (\<lambda>(k, v). AList.update k v) u d"

subsection \<open>Identifier formatting\<close>

text \<open>
  \<open>f"{n:04d}"\<close>: the decimal digits of \<open>n\<close>, padded with zeros on the left to the width;
  a negative number carries its sign inside the width.
\<close>

definition digit :: "nat \<Rightarrow> char" where
  "digit d = ''0123456789'' ! d"

fun digits :: "nat \<Rightarrow> string" where
  "digits n = (if n < 10 then [digit n] else digits (n div 10) @ [digit (n mod 10)])"

declare digits.simps [simp del]

definition zpad :: "nat \<Rightarrow> string \<Rightarrow> string" where
  "zpad w s = replicate (w - length s) CHR ''0'' @ s"

definition fmt_d :: "nat \<Rightarrow> int \<Rightarrow> string" where
  "fmt_d w i = (if i < 0 then CHR ''-'' # zpad (w - 1) (digits (nat (- i)))
                else zpad w (digits (nat i)))"



subsection \<open>Enumerations of the HITL module\<close>

datatype HITLEventType = APPROVAL_REQUESTED | APPROVED | REJECTED | MODIFIED
  | STATE_FROZEN | STATE_THAWED | TIMEOUT | DELEGATED

datatype InterventionLevel = NONE | NOTIFY | CONFIRM | APPROVE | BLOCK

text \<open>
  The reason returned with a level is an f-string over the values that decided it. Each
  constructor stands for one of the templates of \<open>HITLPolicy.evaluate\<close> and carries the
  interpolated value; \<open>NoReason\<close> is the empty string of the default, \<open>CustomReason\<close> the
  text a registered handler returns.
\<close>

datatype reason = HighRiskTool string | ConfirmationRequiredFor string
  | FinalActionRequiresConfirmation | ExtendedLoopCount int | LowConfidence real
  | MissingEvidenceCitations | CustomReason string | NoReason

subsection \<open>Proposed actions and cognition outputs\<close>

text \<open>
  A proposed action is the dict \<open>{tool_name, parameters}\<close>; a key that is absent is
  \<open>None\<close>. A cognition output is the dict the reasoning oracle returns. Its
  \<open>proposed_action\<close> entry is a reference to the action dict, so the record is
  parametric in what stands there: an address in the object store, or the action itself
  where a function only reads.
\<close>

record action =
  tool_name :: "string option"
  parameters :: "dict option"

definition empty_action :: action where
  \<comment> \<open>the dict \<open>{}\<close>\<close>
  "empty_action = \<lparr>tool_name = None, parameters = None\<rparr>"

record 'a cognition =
  reasoning :: "string option"
  proposed_action :: "'a option"
  evidence_refs :: "string list option"
  is_final_action :: bool
  confidence :: "real option"
  control_validated :: bool

text \<open>
  The object store holds the Python objects that are shared by reference and changed in
  place: context and snapshot dicts, cognition outputs, action dicts. Each kind has its
  own table; addresses come from one counter, so a new object never shares an address
  with an older one.
\<close>

record heap =
  dicts :: "addr \<Rightarrow> dict"
  cogs :: "addr \<Rightarrow> addr cognition"
  acts :: "addr \<Rightarrow> action"
  next_addr :: addr

definition alloc_dict :: "heap \<Rightarrow> dict \<Rightarrow> addr \<times> heap" where
  "alloc_dict h d =
     (next_addr h, h\<lparr>dicts := (dicts h)(next_addr h := d), next_addr := Suc (next_addr h)\<rparr>)"

definition alloc_cog :: "heap \<Rightarrow> addr cognition \<Rightarrow> addr \<times> heap" where
  "alloc_cog h c =
     (next_addr h, h\<lparr>cogs := (cogs h)(next_addr h := c), next_addr := Suc (next_addr h)\<rparr>)"

definition alloc_act :: "heap \<Rightarrow> action \<Rightarrow> addr \<times> heap" where
  "alloc_act h a =
     (next_addr h, h\<lparr>acts := (acts h)(next_addr h := a), next_addr := Suc (next_addr h)\<rparr>)"

definition deepcopy_dict :: "heap \<Rightarrow> addr \<Rightarrow> addr \<times> heap" where
  \<comment> \<open>\<open>copy.deepcopy\<close> of a dict of plain data: a new object with equal contents\<close>
  "deepcopy_dict h a = alloc_dict h (dicts h a)"

definition deepcopy_cog :: "heap \<Rightarrow> addr \<Rightarrow> addr \<times> heap" where
  \<comment> \<open>\<open>copy.deepcopy\<close> of a cognition output: the action dict it refers to is copied too\<close>
  "deepcopy_cog h a =
     (let c = cogs h a in
      case proposed_action c of
        None \<Rightarrow> alloc_cog h c
      | Some pa \<Rightarrow>
          (let (pa', h1) = alloc_act h (acts h pa)
           in alloc_cog h1 (c\<lparr>proposed_action := Some pa'\<rparr>)))"

definition view_cog :: "heap \<Rightarrow> addr \<Rightarrow> action cognition" where
  \<comment> \<open>the contents of a cognition output, with the action it refers to read from the store\<close>
  "view_cog h a =
     (let c = cogs h a in
      \<lparr>reasoning = reasoning c,
       proposed_action = map_option (acts h) (proposed_action c),
       evidence_refs = evidence_refs c,
       is_final_action = is_final_action c,
       confidence = confidence c,
       control_validated = control_validated c\<rparr>)"

section \<open>The intervention policy (\<open>HITLPolicy\<close>)\<close>

text \<open>
  The options \<open>evaluate\<close> reads. The other entries of \<open>self.policies\<close>
  (\<open>confirm_on_external_action\<close>, \<open>confirm_on_cost_threshold\<close>, \<open>confirm_on_loop_retry\<close>,
  \<open>confirm_on_conflicting_evidence\<close>) are read nowhere.
\<close>

record policies =
  high_risk_tools :: "string list"
  always_confirm_tools :: "string list"
  confirm_on_final_action :: bool
  confirm_on_confidence_below :: real
  confirm_after_n_loops :: int
  confirm_on_missing_evidence :: bool

record HITLPolicy =
  policies :: policies
  custom_handlers :: "string \<Rightarrow> (action cognition \<Rightarrow> dict \<Rightarrow> InterventionLevel \<times> reason) option"

definition default_policies :: policies where
  "default_policies =
     \<lparr>high_risk_tools = [''send_email'', ''cancel_trip'', ''make_payment'', ''delete_data''],
      always_confirm_tools = [''generate_image''],
      confirm_on_final_action = True,
      confirm_on_confidence_below = 0.7,
      confirm_after_n_loops = 10,
      confirm_on_missing_evidence = True\<rparr>"

definition default_policy :: HITLPolicy where
  "default_policy = \<lparr>policies = default_policies, custom_handlers = (\<lambda>_. None)\<rparr>"

definition register_handler ::
  "HITLPolicy \<Rightarrow> string \<Rightarrow> (action cognition \<Rightarrow> dict \<Rightarrow> InterventionLevel \<times> reason) \<Rightarrow> HITLPolicy" where
  "register_handler pol tool handler = pol\<lparr>custom_handlers := (custom_handlers pol)(tool \<mapsto> handler)\<rparr>"

definition action_tool :: "action cognition \<Rightarrow> string" where
  \<comment> \<open>\<open>cognition_output.get("proposed_action", {}).get("tool_name", "")\<close>\<close>
  "action_tool cog =
     (case proposed_action cog of
        None \<Rightarrow> ''''
      | Some a \<Rightarrow> (case tool_name a of None \<Rightarrow> '''' | Some t \<Rightarrow> t))"

definition no_evidence :: "string list option \<Rightarrow> bool" where
  \<comment> \<open>\<open>not cognition_output.get("evidence_refs")\<close>: the key is absent or the list is empty\<close>
  "no_evidence refs = (case refs of None \<Rightarrow> True | Some xs \<Rightarrow> xs = [])"

definition evaluate ::
  "HITLPolicy \<Rightarrow> action cognition \<Rightarrow> dict \<Rightarrow> int \<Rightarrow> InterventionLevel \<times> reason" where
  "evaluate pol cognition_output context loop_counter =
     (let tool = action_tool cognition_output;
          conf = (case confidence cognition_output of None \<Rightarrow> 1 | Some c \<Rightarrow> c)
      in
      if tool \<in> set (high_risk_tools (policies pol)) then (APPROVE, HighRiskTool tool)
      else if tool \<in> set (always_confirm_tools (policies pol))
        then (CONFIRM, ConfirmationRequiredFor tool)
      else if confirm_on_final_action (policies pol) \<and> is_final_action cognition_output
        then (CONFIRM, FinalActionRequiresConfirmation)
      else if loop_counter \<ge> confirm_after_n_loops (policies pol)
        then (NOTIFY, ExtendedLoopCount loop_counter)
      else if conf < confirm_on_confidence_below (policies pol)
        then (CONFIRM, LowConfidence conf)
      else if confirm_on_missing_evidence (policies pol)
              \<and> no_evidence (evidence_refs cognition_output)
        then (NOTIFY, MissingEvidenceCitations)
      else (case custom_handlers pol tool of
              Some handler \<Rightarrow> handler cognition_output context
            | None \<Rightarrow> (NONE, NoReason)))"

text \<open>
  The rule order as the specification words it: eight rules in sequence, each a condition
  with the answer it gives, the first one whose condition holds decides.
\<close>

fun first_match :: "(bool \<times> 'a) list \<Rightarrow> 'a \<Rightarrow> 'a" where
  "first_match [] d = d"
| "first_match ((c, r) # rs) d = (if c then r else first_match rs d)"

definition spec_rule_order ::
  "HITLPolicy \<Rightarrow> action cognition \<Rightarrow> dict \<Rightarrow> int \<Rightarrow> InterventionLevel \<times> reason" where
  "spec_rule_order pol cog context loop_counter =
     first_match
       [(action_tool cog \<in> set (high_risk_tools (policies pol)),
           (APPROVE, HighRiskTool (action_tool cog))),
        (action_tool cog \<in> set (always_confirm_tools (policies pol)),
           (CONFIRM, ConfirmationRequiredFor (action_tool cog))),
        (is_final_action cog \<and> confirm_on_final_action (policies pol),
           (CONFIRM, FinalActionRequiresConfirmation)),
        (confirm_after_n_loops (policies pol) \<le> loop_counter,
           (NOTIFY, ExtendedLoopCount loop_counter)),
        (case_option 1 id (confidence cog) < confirm_on_confidence_below (policies pol),
           (CONFIRM, LowConfidence (case_option 1 id (confidence cog)))),
        (no_evidence (evidence_refs cog) \<and> confirm_on_missing_evidence (policies pol),
           (NOTIFY, MissingEvidenceCitations)),
        (custom_handlers pol (action_tool cog) \<noteq> None,
           the (custom_handlers pol (action_tool cog)) cog context)]
       (NONE, NoReason)"

section \<open>The suspension manager (\<open>HITLManager\<close>)\<close>

text \<open>
  Timestamps (\<open>datetime.now()\<close>) are left out of snapshots and events: nothing compares
  them. The three UI callbacks are \<open>None\<close> after construction and are set nowhere in the
  repository, so their calls are left out too.
\<close>

record FrozenCognitiveState =
  f_freeze_id :: string
  f_loop_counter :: int
  f_pending_action :: addr
  f_cognition_output :: addr
  f_memory_snapshot :: addr
  f_evidence_cache :: addr
  f_context :: addr
  f_metaprompt_state :: addr
  f_intervention_reason :: reason
  f_intervention_level :: InterventionLevel

record HITLTrace =
  t_trace_id :: string
  t_event_type :: HITLEventType
  t_freeze_id :: "string option"
  t_pending_action :: addr
  t_human_decision :: "string option"
  t_human_feedback :: "string option"
  t_modified_action :: "addr option"
  t_decision_rationale :: "string option"
  t_actor :: string

record HITLManager =
  policy :: HITLPolicy
  frozen_states :: "(string \<times> FrozenCognitiveState) list"
  hitl_traces :: "HITLTrace list"
  freeze_counter :: nat
  trace_counter :: nat

definition new_manager :: "HITLPolicy \<Rightarrow> HITLManager" where
  "new_manager pol =
     \<lparr>policy = pol, frozen_states = [], hitl_traces = [], freeze_counter = 0, trace_counter = 0\<rparr>"

definition generate_freeze_id :: "HITLManager \<Rightarrow> string \<times> HITLManager" where
  "generate_freeze_id m =
     (''FREEZE-'' @ fmt_d 4 (int (freeze_counter m + 1)),
      m\<lparr>freeze_counter := freeze_counter m + 1\<rparr>)"

definition generate_trace_id :: "HITLManager \<Rightarrow> string \<times> HITLManager" where
  "generate_trace_id m =
     (''HITL-'' @ fmt_d 4 (int (trace_counter m + 1)),
      m\<lparr>trace_counter := trace_counter m + 1\<rparr>)"

definition log_trace ::
  "HITLManager \<Rightarrow> HITLEventType \<Rightarrow> string option \<Rightarrow> addr \<Rightarrow> string option \<Rightarrow> string option
     \<Rightarrow> addr option \<Rightarrow> string option \<Rightarrow> string \<Rightarrow> HITLTrace \<times> HITLManager" where
  "log_trace m event_type freeze_id pending human_decision human_feedback modified_action
       decision_rationale actor =
     (let (tid, m1) = generate_trace_id m;
          trace = \<lparr>t_trace_id = tid, t_event_type = event_type, t_freeze_id = freeze_id,
                   t_pending_action = pending, t_human_decision = human_decision,
                   t_human_feedback = human_feedback, t_modified_action = modified_action,
                   t_decision_rationale = decision_rationale, t_actor = actor\<rparr>
      in (trace, m1\<lparr>hitl_traces := hitl_traces m1 @ [trace]\<rparr>))"

definition check_intervention ::
  "HITLManager \<Rightarrow> action cognition \<Rightarrow> dict \<Rightarrow> int \<Rightarrow> InterventionLevel \<times> reason" where
  "check_intervention m cognition_output context loop_counter =
     evaluate (policy m) cognition_output context loop_counter"

definition freeze_state ::
  "HITLManager \<Rightarrow> heap \<Rightarrow> int \<Rightarrow> addr \<Rightarrow> addr \<Rightarrow> addr \<Rightarrow> addr \<Rightarrow> addr
     \<Rightarrow> InterventionLevel \<Rightarrow> reason \<Rightarrow> FrozenCognitiveState \<times> HITLManager \<times> heap" where
  "freeze_state m h loop_counter cognition_output memory_state evidence_cache context
       metaprompt_state intervention_level intervention_reason =
     (let (fid, m1) = generate_freeze_id m;
          \<comment> \<open>the pending action is the live action dict itself, not a copy\<close>
          (pending, h0) = (case proposed_action (cogs h cognition_output) of
                             Some pa \<Rightarrow> (pa, h)
                           | None \<Rightarrow> alloc_act h empty_action);
          (cog', h1) = deepcopy_cog h0 cognition_output;
          (mem', h2) = deepcopy_dict h1 memory_state;
          (ev', h3) = deepcopy_dict h2 evidence_cache;
          (ctx', h4) = deepcopy_dict h3 context;
          (mp', h5) = deepcopy_dict h4 metaprompt_state;
          frozen = \<lparr>f_freeze_id = fid, f_loop_counter = loop_counter,
                    f_pending_action = pending, f_cognition_output = cog',
                    f_memory_snapshot = mem', f_evidence_cache = ev', f_context = ctx',
                    f_metaprompt_state = mp', f_intervention_reason = intervention_reason,
                    f_intervention_level = intervention_level\<rparr>;
          m2 = m1\<lparr>frozen_states := AList.update fid frozen (frozen_states m1)\<rparr>;
          (tr, m3) = log_trace m2 STATE_FROZEN (Some fid) pending None None None None ''system''
      in (frozen, m3, h5))"

definition thaw_state :: "HITLManager \<Rightarrow> string \<Rightarrow> FrozenCognitiveState option \<times> HITLManager" where
  "thaw_state m freeze_id =
     (case map_of (frozen_states m) freeze_id of
        None \<Rightarrow> (None, m)
      | Some frozen \<Rightarrow>
          (let (tr, m1) = log_trace m STATE_THAWED (Some freeze_id) (f_pending_action frozen)
                            None None None None ''system''
           in (Some frozen, m1)))"

text \<open>
  The approval request: the summary handed to the decision source. The excerpt of the
  last action result (\<open>str(...)[:200]\<close>, Python's textual form of an arbitrary value) is
  left out.
\<close>

record approval_request =
  r_freeze_id :: string
  r_intervention_level :: InterventionLevel
  r_intervention_reason :: reason
  r_pending_action :: addr
  r_cognition_reasoning :: string
  r_evidence_refs :: "string list"
  r_loop_counter :: int
  r_task :: json

definition request_approval ::
  "HITLManager \<Rightarrow> heap \<Rightarrow> FrozenCognitiveState \<Rightarrow> approval_request \<times> HITLManager" where
  "request_approval m h frozen_state =
     (let (tr, m1) = log_trace m APPROVAL_REQUESTED (Some (f_freeze_id frozen_state))
                       (f_pending_action frozen_state) None None None None ''system'';
          cog = cogs h (f_cognition_output frozen_state)
      in (\<lparr>r_freeze_id = f_freeze_id frozen_state,
           r_intervention_level = f_intervention_level frozen_state,
           r_intervention_reason = f_intervention_reason frozen_state,
           r_pending_action = f_pending_action frozen_state,
           r_cognition_reasoning = (case reasoning cog of None \<Rightarrow> '''' | Some r \<Rightarrow> r),
           r_evidence_refs = (case evidence_refs cog of None \<Rightarrow> [] | Some xs \<Rightarrow> xs),
           r_loop_counter = f_loop_counter frozen_state,
           r_task = (case map_of (dicts h (f_context frozen_state)) ''task'' of
                       None \<Rightarrow> JStr '''' | Some (JStr t) \<Rightarrow> JStr (take 200 t) | Some v \<Rightarrow> v)\<rparr>,
          m1))"

datatype next_action =
    Execute addr  \<comment> \<open>\<open>{"action": "execute", "proposed_action": ...}\<close>\<close>
  | RetryCognition string
      \<comment> \<open>\<open>{"action": "retry_cognition", "rejection_feedback": ..., "virtual_rejection_cycle": True}\<close>\<close>

datatype hitl_error =
    FrozenStateNotFound string  \<comment> \<open>\<open>{"error": "Frozen state not found: <id>"}\<close>\<close>
  | InvalidDecision string  \<comment> \<open>\<open>{"error": "Invalid decision: <decision>"}\<close>\<close>
  | NotFoundAfterProcessing  \<comment> \<open>\<open>{"error": "Frozen state not found after processing"}\<close>\<close>

record decision_result =
  d_decision :: string
  d_trace_id :: string
  d_freeze_id :: string
  d_next_action :: next_action

definition action_truthy :: "heap \<Rightarrow> addr option \<Rightarrow> bool" where
  \<comment> \<open>the truth value of an optional action dict: \<open>None\<close> and \<open>{}\<close> are false\<close>
  "action_truthy h a = (case a of None \<Rightarrow> False | Some p \<Rightarrow> acts h p \<noteq> empty_action)"

definition determine_next_action ::
  "heap \<Rightarrow> string \<Rightarrow> FrozenCognitiveState \<Rightarrow> addr option \<Rightarrow> next_action" where
  "determine_next_action h decision frozen modified_action =
     (if decision = ''approve'' then Execute (f_pending_action frozen)
      else if decision = ''modify'' then
        Execute (if action_truthy h modified_action then the modified_action
                 else f_pending_action frozen)
      else RetryCognition
             (case reasoning (cogs h (f_cognition_output frozen)) of None \<Rightarrow> '''' | Some r \<Rightarrow> r))"

definition process_human_decision ::
  "HITLManager \<Rightarrow> heap \<Rightarrow> string \<Rightarrow> string \<Rightarrow> string option \<Rightarrow> addr option \<Rightarrow> string option
     \<Rightarrow> (hitl_error + decision_result) \<times> HITLManager" where
  "process_human_decision m h freeze_id decision feedback modified_action rationale =
     (case map_of (frozen_states m) freeze_id of
        None \<Rightarrow> (Inl (FrozenStateNotFound freeze_id), m)
      | Some frozen \<Rightarrow>
          (if decision \<noteq> ''approve'' \<and> decision \<noteq> ''reject'' \<and> decision \<noteq> ''modify''
           then (Inl (InvalidDecision decision), m)
           else
             (let event_type = (if decision = ''approve'' then APPROVED
                                else if decision = ''reject'' then REJECTED else MODIFIED);
                  (trace, m1) = log_trace m event_type (Some freeze_id) (f_pending_action frozen)
                                  (Some decision) feedback modified_action rationale ''human''
              in (Inr \<lparr>d_decision = decision, d_trace_id = t_trace_id trace,
                       d_freeze_id = freeze_id,
                       d_next_action = determine_next_action h decision frozen modified_action\<rparr>,
                  m1))))"

definition cleanup_frozen_state :: "HITLManager \<Rightarrow> string \<Rightarrow> HITLManager" where
  "cleanup_frozen_state m freeze_id = m\<lparr>frozen_states := AList.delete freeze_id (frozen_states m)\<rparr>"

section \<open>The working store, the governance rules and the capability registry\<close>

datatype ModuleType = RETRIEVAL | COGNITION | CONTROL | ACTION | MEMORY | HITL

text \<open>
  What a loop trace holds as input and output state. The Python stores the object it is
  handed, not a copy, so a trace of a dict that is changed later shows the later contents
  when the report is made: \<open>PDictRef\<close>, \<open>PCogRef\<close> and \<open>PActRef\<close> are such
  references, \<open>PJson\<close> is a value built for the trace alone.
\<close>

datatype payload = PJson json | PDictRef addr | PCogRef addr | PActRef addr
  | PDecision "hitl_error + decision_result"

record LoopTrace =
  lt_loop_id :: string
  lt_module :: ModuleType
  lt_input_state :: payload
  lt_output_state :: payload
  lt_decision :: "string option"
  lt_validation_result :: "bool option"
  lt_evidence_refs :: "string list option"
  lt_hitl_event :: "payload option"

record Memory =
  store :: dict
  history :: "LoopTrace list"
  m_evidence_cache :: dict

definition new_memory :: Memory where
  "new_memory = \<lparr>store = [], history = [], m_evidence_cache = []\<rparr>"

definition memory_write :: "Memory \<Rightarrow> string \<Rightarrow> json \<Rightarrow> string option \<Rightarrow> Memory" where
  "memory_write m key v evidence_id =
     m\<lparr>store := AList.update key
          (JDict [(''value'', v),
                  (''evidence_id'', case evidence_id of None \<Rightarrow> JNull | Some e \<Rightarrow> JStr e)])
          (store m)\<rparr>"

definition entry_value :: "json \<Rightarrow> json" where
  \<comment> \<open>\<open>entry["value"]\<close> of a store entry\<close>
  "entry_value e =
     (case e of
        JDict kvs \<Rightarrow> (case map_of kvs ''value'' of Some v \<Rightarrow> v | None \<Rightarrow> JNull)
      | _ \<Rightarrow> JNull)"

definition memory_read :: "Memory \<Rightarrow> string \<Rightarrow> json" where
  "memory_read m key = (case map_of (store m) key of None \<Rightarrow> JNull | Some e \<Rightarrow> entry_value e)"

definition has_evidence :: "Memory \<Rightarrow> string \<Rightarrow> bool" where
  "has_evidence m evidence_id = (evidence_id \<in> fst ` set (m_evidence_cache m))"

definition store_evidence :: "Memory \<Rightarrow> string \<Rightarrow> json \<Rightarrow> Memory" where
  "store_evidence m evidence_id data =
     m\<lparr>m_evidence_cache := AList.update evidence_id data (m_evidence_cache m)\<rparr>"

definition log_loop_trace :: "Memory \<Rightarrow> LoopTrace \<Rightarrow> Memory" where
  \<comment> \<open>\<open>Memory.log_trace\<close>\<close>
  "log_loop_trace m trace = m\<lparr>history := history m @ [trace]\<rparr>"

definition get_state_summary :: "Memory \<Rightarrow> json" where
  "get_state_summary m =
     JDict [(''stored_values'', JDict (map (\<lambda>(k, v). (k, entry_value v)) (store m))),
            (''available_evidence'', JList (map (\<lambda>(k, v). JStr k) (m_evidence_cache m))),
            (''loop_count'', JInt (int (length (history m))))]"

definition get_snapshot :: "Memory \<Rightarrow> dict" where
  "get_snapshot m =
     [(''store'', JDict (store m)), (''history_length'', JInt (int (length (history m))))]"

definition restore_snapshot :: "Memory \<Rightarrow> dict \<Rightarrow> Memory" where
  \<comment> \<open>\<open>self.store = copy.deepcopy(snapshot.get("store", {}))\<close>; the entry is a dict\<close>
  "restore_snapshot m snapshot =
     m\<lparr>store := (case map_of snapshot ''store'' of Some (JDict d) \<Rightarrow> d | _ \<Rightarrow> [])\<rparr>"

definition get_evidence_snapshot :: "Memory \<Rightarrow> dict" where
  "get_evidence_snapshot m = m_evidence_cache m"

definition restore_evidence :: "Memory \<Rightarrow> dict \<Rightarrow> Memory" where
  "restore_evidence m evidence_snapshot = m\<lparr>m_evidence_cache := evidence_snapshot\<rparr>"

record MetaPrompt =
  must_cite_stored_evidence :: bool
  no_final_answer_without_control_pass :: bool
  single_final_action :: bool
  avoid_redundant_tool_calls :: bool
  validate_conditional_branches :: bool
  require_hitl_for_high_risk :: bool
  log_all_human_decisions :: bool
  instructions :: string

definition new_metaprompt :: MetaPrompt where
  "new_metaprompt =
     \<lparr>must_cite_stored_evidence = True, no_final_answer_without_control_pass = True,
      single_final_action = True, avoid_redundant_tool_calls = True,
      validate_conditional_branches = True, require_hitl_for_high_risk = True,
      log_all_human_decisions = True,
      instructions = ''You are operating under Soft Symbolic Control within a Structured Cognitive Loop.''\<rparr>"

definition rule_names :: "string list" where
  \<comment> \<open>\<open>list(self.metaprompt.rules.keys())\<close>\<close>
  "rule_names =
     [''must_cite_stored_evidence'', ''no_final_answer_without_control_pass'',
      ''single_final_action'', ''avoid_redundant_tool_calls'', ''validate_conditional_branches'',
      ''require_hitl_for_high_risk'', ''log_all_human_decisions'']"

definition get_state :: "MetaPrompt \<Rightarrow> dict" where
  "get_state mp =
     [(''rules'', JDict
         [(''must_cite_stored_evidence'', JBool (must_cite_stored_evidence mp)),
          (''no_final_answer_without_control_pass'', JBool (no_final_answer_without_control_pass mp)),
          (''single_final_action'', JBool (single_final_action mp)),
          (''avoid_redundant_tool_calls'', JBool (avoid_redundant_tool_calls mp)),
          (''validate_conditional_branches'', JBool (validate_conditional_branches mp)),
          (''require_hitl_for_high_risk'', JBool (require_hitl_for_high_risk mp)),
          (''log_all_human_decisions'', JBool (log_all_human_decisions mp))]),
      (''instructions'', JStr (instructions mp))]"

fun join :: "string \<Rightarrow> string list \<Rightarrow> string" where
  "join sep [] = []"
| "join sep [x] = x"
| "join sep (x # y # ys) = x @ sep @ join sep (y # ys)"

definition validate :: "MetaPrompt \<Rightarrow> 'a cognition \<Rightarrow> bool \<times> string" where
  "validate mp cognition_output =
     (let issues =
            (if must_cite_stored_evidence mp \<and> no_evidence (evidence_refs cognition_output)
             then [''Missing evidence citations''] else [])
          @ (if is_final_action cognition_output \<and> \<not> control_validated cognition_output
             then [''Final action without Control validation''] else []);
          is_valid = (issues = [])
      in (is_valid, if is_valid then ''PASS'' else ''VIOLATIONS: '' @ join ''; '' issues))"

text \<open>
  A registered tool is a Python callable. It returns a value or raises; the exception is
  \<open>Inl\<close> of its text. A tool may answer differently from call to call, so it is given
  the number of loop traces logged so far besides its parameters.
\<close>

record tool =
  tl_function :: "nat \<Rightarrow> dict \<Rightarrow> string + json"
  tl_description :: string

type_synonym ToolRegistry = "(string \<times> tool) list"

definition register ::
  "ToolRegistry \<Rightarrow> string \<Rightarrow> (nat \<Rightarrow> dict \<Rightarrow> string + json) \<Rightarrow> string \<Rightarrow> ToolRegistry" where
  "register reg name func description =
     AList.update name \<lparr>tl_function = func, tl_description = description\<rparr> reg"

definition get_tool_descriptions :: "ToolRegistry \<Rightarrow> json" where
  "get_tool_descriptions reg =
     JList (map (\<lambda>(n, t). JDict [(''name'', JStr n), (''description'', JStr (tl_description t))]) reg)"

definition execute :: "ToolRegistry \<Rightarrow> nat \<Rightarrow> string \<Rightarrow> dict \<Rightarrow> string + json" where
  "execute reg tick name kwargs =
     (case map_of reg name of
        None \<Rightarrow> Inl (''Tool '' @ CHR 0x27 # name @ CHR 0x27 # '' not registered'')
      | Some t \<Rightarrow> tl_function t tick kwargs)"

section \<open>The control loop (\<open>StructuredCognitiveLoopWithHITL\<close>)\<close>

subsection \<open>External collaborators\<close>

text \<open>
  The reasoning oracle is called with the prompt and the context. The prompt is a text
  built from the instructions, the feedback of a human rejection (when the context
  carries one), the state summary, the tool descriptions and the context; the record
  holds these parts. The oracle answers with a new dict, which the loop then owns.
  \<open>json.dumps(..., sort_keys=True)\<close> is a library function, taken as it is. The console
  is the person at the interactive prompt: the choice finally typed in for a request.
\<close>

record prompt =
  p_instructions :: string
  p_hitl_context :: "(json \<times> json) option"
  p_current_state :: json
  p_available_tools :: json
  p_context :: dict

datatype human_choice = ChooseApprove "string option" | ChooseReject string | ChooseModify dict

record env =
  cognition_engine :: "prompt \<Rightarrow> dict \<Rightarrow> action cognition"
  json_dumps :: "dict \<Rightarrow> string"
  console :: "approval_request \<Rightarrow> human_choice"

subsection \<open>The loop object\<close>

record scl =
  tools :: ToolRegistry
  metaprompt :: MetaPrompt
  memory :: Memory
  max_loops :: int
  loop_counter :: int
  hitl_manager :: HITLManager
  hitl_mode :: string
  hitl_handler :: "bool option"
      \<comment> \<open>\<open>InteractiveHITLHandler(auto_approve=...)\<close>, or \<open>None\<close>\<close>
  is_resumed :: bool
  resume_context :: "dict option"
  objects :: heap

definition empty_cog :: "addr cognition" where
  "empty_cog = \<lparr>reasoning = None, proposed_action = None, evidence_refs = None,
                 is_final_action = False, confidence = None, control_validated = False\<rparr>"

definition empty_heap :: heap where
  "empty_heap = \<lparr>dicts = (\<lambda>_. []), cogs = (\<lambda>_. empty_cog), acts = (\<lambda>_. empty_action),
                  next_addr = 0\<rparr>"

definition new_scl :: "ToolRegistry \<Rightarrow> MetaPrompt \<Rightarrow> HITLPolicy \<Rightarrow> int \<Rightarrow> string \<Rightarrow> scl" where
  \<comment> \<open>\<open>__init__\<close>\<close>
  "new_scl tool_registry mp hitl_policy maxl mode =
     \<lparr>tools = tool_registry, metaprompt = mp, memory = new_memory, max_loops = maxl,
      loop_counter = 0, hitl_manager = new_manager hitl_policy, hitl_mode = mode,
      hitl_handler = (if mode = ''auto'' then Some True
                      else if mode = ''interactive'' then Some False else None),
      is_resumed = False, resume_context = None, objects = empty_heap\<rparr>"

definition truthy :: "json \<Rightarrow> bool" where
  \<comment> \<open>Python's truth value of a JSON value\<close>
  "truthy v =
     (case v of JNull \<Rightarrow> False | JBool b \<Rightarrow> b | JInt i \<Rightarrow> i \<noteq> 0 | JReal r \<Rightarrow> r \<noteq> 0
      | JStr s \<Rightarrow> s \<noteq> [] | JList xs \<Rightarrow> xs \<noteq> [] | JDict kvs \<Rightarrow> kvs \<noteq> [])"

definition get_truthy :: "dict \<Rightarrow> string \<Rightarrow> bool" where
  \<comment> \<open>\<open>if d.get(k):\<close>\<close>
  "get_truthy d k = (case map_of d k of None \<Rightarrow> False | Some v \<Rightarrow> truthy v)"

definition get_or :: "dict \<Rightarrow> string \<Rightarrow> json \<Rightarrow> json" where
  \<comment> \<open>\<open>d.get(k, default)\<close>\<close>
  "get_or d k dflt = (case map_of d k of None \<Rightarrow> dflt | Some v \<Rightarrow> v)"

definition ctx_set :: "scl \<Rightarrow> addr \<Rightarrow> string \<Rightarrow> json \<Rightarrow> scl" where
  \<comment> \<open>\<open>context[k] = v\<close> on the dict object at the address\<close>
  "ctx_set s a k v =
     s\<lparr>objects := (objects s)\<lparr>dicts := (dicts (objects s))(a := AList.update k v (dicts (objects s) a))\<rparr>\<rparr>"

definition ctx_pop :: "scl \<Rightarrow> addr \<Rightarrow> string \<Rightarrow> scl" where
  \<comment> \<open>\<open>context.pop(k, None)\<close>\<close>
  "ctx_pop s a k =
     s\<lparr>objects := (objects s)\<lparr>dicts := (dicts (objects s))(a := AList.delete k (dicts (objects s) a))\<rparr>\<rparr>"

definition ctx_update :: "scl \<Rightarrow> addr \<Rightarrow> dict \<Rightarrow> scl" where
  \<comment> \<open>\<open>context.update(u)\<close>\<close>
  "ctx_update s a u =
     s\<lparr>objects := (objects s)\<lparr>dicts := (dicts (objects s))(a := dict_update (dicts (objects s) a) u)\<rparr>\<rparr>"

definition store_cog :: "heap \<Rightarrow> action cognition \<Rightarrow> addr \<times> heap" where
  \<comment> \<open>the dict the oracle returns becomes an object, and so does the action dict in it\<close>
  "store_cog h r =
     (let (pa, h1) = (case proposed_action r of
                        None \<Rightarrow> (None, h)
                      | Some a \<Rightarrow> (let (p, h') = alloc_act h a in (Some p, h')))
      in alloc_cog h1 \<lparr>reasoning = reasoning r, proposed_action = pa,
                        evidence_refs = evidence_refs r, is_final_action = is_final_action r,
                        confidence = confidence r, control_validated = control_validated r\<rparr>)"

subsection \<open>Retrieval, cognition, control\<close>

definition retrieval_plan :: json where
  "retrieval_plan =
     JDict [(''evidence_needed'', JList [JStr ''SF_weather'', JStr ''Miami_weather'', JStr ''Atlanta_weather'']),
            (''base_temperature'', JInt 55),
            (''conditions_parsed'', JBool True),
            (''tools_required'', JList [JStr ''get_weather'', JStr ''send_email'',
                                        JStr ''generate_image'', JStr ''cancel_trip''])]"

definition retrieval :: "scl \<Rightarrow> string \<Rightarrow> json \<times> scl" where
  "retrieval s task =
     (let mem1 = memory_write (memory s) ''task'' (JStr task) None;
          mem2 = memory_write mem1 ''retrieval_plan'' retrieval_plan None;
          trace = \<lparr>lt_loop_id = ''R-001'', lt_module = RETRIEVAL,
                   lt_input_state = PJson (JDict [(''task'', JStr task)]),
                   lt_output_state = PJson retrieval_plan, lt_decision = None,
                   lt_validation_result = None, lt_evidence_refs = None, lt_hitl_event = None\<rparr>
      in (retrieval_plan, s\<lparr>memory := log_loop_trace mem2 trace\<rparr>))"

definition cognition :: "env \<Rightarrow> scl \<Rightarrow> addr \<Rightarrow> addr \<times> scl" where
  "cognition e s context =
     (let s1 = s\<lparr>loop_counter := loop_counter s + 1\<rparr>;
          loop_id = ''CCAM-'' @ fmt_d 3 (loop_counter s1);
          ctx = dicts (objects s1) context;
          cognition_prompt =
            \<lparr>p_instructions = instructions (metaprompt s1),
             p_hitl_context =
               (if get_truthy ctx ''human_rejected''
                then Some (get_or ctx ''rejection_reason'' (JStr ''Not specified''),
                           get_or ctx ''retry_guidance'' (JStr ''Consider alternative approaches''))
                else None),
             p_current_state = get_state_summary (memory s1),
             p_available_tools = get_tool_descriptions (tools s1),
             p_context = ctx\<rparr>;
          response = cognition_engine e cognition_prompt ctx;
          (cog, h1) = store_cog (objects s1) response;
          trace = \<lparr>lt_loop_id = loop_id, lt_module = COGNITION,
                   lt_input_state = PDictRef context, lt_output_state = PCogRef cog,
                   lt_decision = None, lt_validation_result = None,
                   lt_evidence_refs = evidence_refs response, lt_hitl_event = None\<rparr>
      in (cog, s1\<lparr>objects := h1, memory := log_loop_trace (memory s1) trace\<rparr>))"

definition evidence_id :: "env \<Rightarrow> string \<Rightarrow> dict \<Rightarrow> string" where
  \<comment> \<open>\<open>f"evidence_{tool_name}_{json.dumps(parameters, sort_keys=True)}"\<close>\<close>
  "evidence_id e tool params = ''evidence_'' @ tool @ ''_'' @ json_dumps e params"

definition action_parameters :: "action \<Rightarrow> dict" where
  \<comment> \<open>\<open>proposed_action.get("parameters", {})\<close>\<close>
  "action_parameters a = (case parameters a of None \<Rightarrow> [] | Some p \<Rightarrow> p)"

definition tool_given :: "action \<Rightarrow> bool" where
  \<comment> \<open>\<open>if tool_name:\<close> the name is there and is not the empty string\<close>
  "tool_given a = (case tool_name a of None \<Rightarrow> False | Some t \<Rightarrow> t \<noteq> [])"

definition mark_validated :: "heap \<Rightarrow> addr \<Rightarrow> heap" where
  \<comment> \<open>\<open>cognition_output["control_validated"] = True\<close>\<close>
  "mark_validated h cog = h\<lparr>cogs := (cogs h)(cog := (cogs h cog)\<lparr>control_validated := True\<rparr>)\<rparr>"

definition control :: "env \<Rightarrow> scl \<Rightarrow> addr \<Rightarrow> (bool \<times> string) \<times> scl" where
  "control e s cognition_output =
     (let h1 = (if is_final_action (cogs (objects s) cognition_output)
                then mark_validated (objects s) cognition_output else objects s);
          (is_valid, message) = validate (metaprompt s) (cogs h1 cognition_output);
          proposed = (case proposed_action (cogs h1 cognition_output) of
                        None \<Rightarrow> empty_action | Some a \<Rightarrow> acts h1 a);
          (is_valid, message) =
            (if tool_given proposed
                \<and> has_evidence (memory s)
                     (evidence_id e (the (tool_name proposed)) (action_parameters proposed))
             then (False, ''REJECTED: Redundant tool call (evidence already in Memory)'')
             else (is_valid, message));
          trace = \<lparr>lt_loop_id = ''CTL-'' @ fmt_d 3 (loop_counter s), lt_module = CONTROL,
                   lt_input_state = PCogRef cognition_output,
                   lt_output_state = PJson (JDict [(''validation'', JBool is_valid),
                                                   (''message'', JStr message)]),
                   lt_decision = None, lt_validation_result = Some is_valid,
                   lt_evidence_refs = None, lt_hitl_event = None\<rparr>
      in ((is_valid, message), s\<lparr>objects := h1, memory := log_loop_trace (memory s) trace\<rparr>))"

subsection \<open>The intervention check\<close>

definition level_value :: "InterventionLevel \<Rightarrow> string" where
  "level_value l = (case l of NONE \<Rightarrow> ''none'' | NOTIFY \<Rightarrow> ''notify'' | CONFIRM \<Rightarrow> ''confirm''
                    | APPROVE \<Rightarrow> ''approve'' | BLOCK \<Rightarrow> ''block'')"

definition action_json :: "action \<Rightarrow> json" where
  "action_json a =
     JDict ((case tool_name a of None \<Rightarrow> [] | Some t \<Rightarrow> [(''tool_name'', JStr t)])
            @ (case parameters a of None \<Rightarrow> [] | Some p \<Rightarrow> [(''parameters'', JDict p)]))"

definition handle_intervention ::
  "env \<Rightarrow> bool \<Rightarrow> HITLManager \<Rightarrow> heap \<Rightarrow> approval_request
     \<Rightarrow> ((hitl_error + decision_result) \<times> HITLManager) \<times> heap" where
  \<comment> \<open>\<open>InteractiveHITLHandler.handle_intervention\<close>: \<open>_auto_approve\<close> or the prompt\<close>
  "handle_intervention e auto_approve m h request =
     (if auto_approve then
        (process_human_decision m h (r_freeze_id request) ''approve'' None None
           (Some ''Auto-approved for testing''), h)
      else
        (case console e request of
           ChooseApprove rationale \<Rightarrow>
             (process_human_decision m h (r_freeze_id request) ''approve'' None None rationale, h)
         | ChooseReject feedback \<Rightarrow>
             (process_human_decision m h (r_freeze_id request) ''reject'' (Some feedback) None
                (Some ''Human rejected action''), h)
         | ChooseModify mod_params \<Rightarrow>
             (let (modified_action, h1) =
                    alloc_act h \<lparr>tool_name = tool_name (acts h (r_pending_action request)),
                                 parameters = Some mod_params\<rparr>
              in (process_human_decision m h1 (r_freeze_id request) ''modify'' None
                    (Some modified_action) (Some ''Human modified action parameters''), h1))))"

datatype hitl_outcome =
    Proceed "addr option"  \<comment> \<open>\<open>(True, modified_action_or_None)\<close>\<close>
  | VirtualRejection  \<comment> \<open>\<open>(False, {"virtual_rejection": True})\<close>\<close>
  | Blocked  \<comment> \<open>\<open>(False, None)\<close>\<close>

definition create_virtual_rejection_cycle ::
  "heap \<Rightarrow> FrozenCognitiveState \<Rightarrow> string \<Rightarrow> dict" where
  \<comment> \<open>the \<open>context_update\<close> entry of the cycle, the only one the loop reads\<close>
  "create_virtual_rejection_cycle h frozen rejection_reason =
     [(''human_rejected'', JBool True),
      (''rejection_reason'', JStr rejection_reason),
      (''previous_proposal'', action_json (acts h (f_pending_action frozen))),
      (''retry_guidance'', JStr ''Consider alternative approaches based on human feedback'')]"

definition hitl_result ::
  "scl \<Rightarrow> addr \<Rightarrow> FrozenCognitiveState \<Rightarrow> InterventionLevel \<Rightarrow> hitl_error + decision_result
     \<Rightarrow> hitl_outcome \<times> scl" where
  \<comment> \<open>the part of \<open>hitl_check\<close> after the decision: log the HITL event, process the result\<close>
  "hitl_result s cognition_output frozen_state intervention_level result =
     (let hitl_trace =
            \<lparr>lt_loop_id = ''HITL-'' @ fmt_d 3 (loop_counter s), lt_module = HITL,
             lt_input_state = PJson (JDict [(''freeze_id'', JStr (f_freeze_id frozen_state)),
                                            (''level'', JStr (level_value intervention_level))]),
             lt_output_state = PDecision result, lt_decision = None,
             lt_validation_result = None, lt_evidence_refs = None,
             lt_hitl_event = Some (PDecision result)\<rparr>;
          s1 = s\<lparr>memory := log_loop_trace (memory s) hitl_trace\<rparr>
      in case result of
           Inl err \<Rightarrow> (Blocked, s1)
         | Inr d \<Rightarrow>
             (case d_next_action d of
                Execute modified \<Rightarrow>
                  (let (fr, m1) = thaw_state (hitl_manager s1) (f_freeze_id frozen_state);
                       s2 = s1\<lparr>hitl_manager := m1\<rparr>
                   in if Some (acts (objects s2) modified)
                         \<noteq> map_option (acts (objects s2))
                              (proposed_action (cogs (objects s2) cognition_output))
                      then (Proceed (Some modified), s2) else (Proceed None, s2))
              | RetryCognition fb \<Rightarrow>
                  (let (fr, m1) = thaw_state (hitl_manager s1) (f_freeze_id frozen_state);
                       s2 = s1\<lparr>hitl_manager := m1\<rparr>;
                       context_update = create_virtual_rejection_cycle (objects s2) frozen_state
                                          ''Human rejected the action''
                   in (VirtualRejection, s2\<lparr>resume_context := Some context_update\<rparr>))))"

definition hitl_check :: "env \<Rightarrow> scl \<Rightarrow> addr \<Rightarrow> addr \<Rightarrow> hitl_outcome \<times> scl" where
  "hitl_check e s cognition_output context =
     (if hitl_mode s = ''disabled'' then (Proceed None, s)
      else
        (let (intervention_level, reason) =
               check_intervention (hitl_manager s) (view_cog (objects s) cognition_output)
                 (dicts (objects s) context) (loop_counter s)
         in if intervention_level = NONE then (Proceed None, s)
            else
              (let (mem_ref, h1) = alloc_dict (objects s) (get_snapshot (memory s));
                   (ev_ref, h2) = alloc_dict h1 (get_evidence_snapshot (memory s));
                   (mp_ref, h3) = alloc_dict h2 (get_state (metaprompt s));
                   (frozen_state, m1, h4) =
                     freeze_state (hitl_manager s) h3 (loop_counter s) cognition_output mem_ref
                       ev_ref context mp_ref intervention_level reason;
                   (request, m2) = request_approval m1 h4 frozen_state
               in case hitl_handler s of
                    Some auto_approve \<Rightarrow>
                      (let ((result, m3), h5) = handle_intervention e auto_approve m2 h4 request
                       in hitl_result (s\<lparr>hitl_manager := m3, objects := h5\<rparr>) cognition_output
                            frozen_state intervention_level result)
                  | None \<Rightarrow>
                      (if intervention_level = NOTIFY then
                         (let (result, m3) =
                                process_human_decision m2 h4 (f_freeze_id frozen_state) ''approve''
                                  None None (Some ''Auto-approved (notify level)'')
                          in hitl_result (s\<lparr>hitl_manager := m3, objects := h4\<rparr>) cognition_output
                               frozen_state intervention_level result)
                       else (Blocked, s\<lparr>hitl_manager := m2, objects := h4\<rparr>)))))"

subsection \<open>Action dispatch\<close>

definition no_action_result :: json where
  "no_action_result = JDict [(''status'', JStr ''no_action''), (''result'', JNull)]"

definition error_result :: "string \<Rightarrow> json" where
  \<comment> \<open>\<open>{"status": "error", "message": f"Action execution failed: {str(e)}"}\<close>\<close>
  "error_result msg =
     JDict [(''status'', JStr ''error''), (''message'', JStr (''Action execution failed: '' @ msg))]"

definition action :: "env \<Rightarrow> scl \<Rightarrow> addr \<Rightarrow> addr option \<Rightarrow> json \<times> scl" where
  "action e s cognition_output modified_action =
     (let h = objects s;
          \<comment> \<open>the modified action if it is there and not empty, else the proposed one\<close>
          proposed_ref =
            (if action_truthy h modified_action then modified_action
             else proposed_action (cogs h cognition_output));
          proposed = (case proposed_ref of None \<Rightarrow> empty_action | Some a \<Rightarrow> acts h a);
          params = action_parameters proposed
      in if \<not> tool_given proposed then (no_action_result, s)
         else
           (case execute (tools s) (length (history (memory s))) (the (tool_name proposed)) params of
              Inl exn \<Rightarrow> (error_result exn, s)
            | Inr result \<Rightarrow>
                (let eid = evidence_id e (the (tool_name proposed)) params;
                     mem1 = store_evidence (memory s) eid result;
                     trace =
                       \<lparr>lt_loop_id = ''ACT-'' @ fmt_d 3 (loop_counter s), lt_module = ACTION,
                        lt_input_state = (case proposed_ref of None \<Rightarrow> PJson (JDict [])
                                          | Some a \<Rightarrow> PActRef a),
                        lt_output_state = PJson (JDict [(''result'', result),
                                                        (''evidence_id'', JStr eid)]),
                        lt_decision = None, lt_validation_result = None,
                        lt_evidence_refs = None, lt_hitl_event = None\<rparr>
                 in (result, s\<lparr>memory := log_loop_trace mem1 trace\<rparr>))))"

subsection \<open>The loop\<close>

text \<open>
  One pass through the body of the \<open>while\<close> loop. \<open>Continue\<close> is \<open>continue\<close> or the end
  of the body; the two \<open>break\<close>s are told apart as \<open>Completed\<close> (the action was final)
  and \<open>Suspended\<close> (the intervention check blocked). The loop of \<open>run\<close> merges a pending
  rejection context first, the loop of \<open>_continue_execution\<close> does not.
\<close>

datatype loop_exit = Continue | Completed | Suspended | Exhausted

definition resume_pending :: "dict option \<Rightarrow> bool" where
  \<comment> \<open>\<open>if self._resume_context:\<close>\<close>
  "resume_pending rc = (case rc of None \<Rightarrow> False | Some d \<Rightarrow> d \<noteq> [])"

definition iteration :: "env \<Rightarrow> bool \<Rightarrow> scl \<Rightarrow> addr \<Rightarrow> loop_exit \<times> scl" where
  "iteration e merge s context =
     (let s1 = (if merge \<and> resume_pending (resume_context s)
                then (ctx_update s context (the (resume_context s)))\<lparr>resume_context := None\<rparr>
                else s);
          (cognition_output, s2) = cognition e s1 context;
          s3 = ctx_pop (ctx_pop (ctx_pop s2 context ''human_rejected'') context ''rejection_reason'')
                 context ''retry_guidance'';
          ((is_valid, validation_msg), s4) = control e s3 cognition_output
      in if \<not> is_valid then (Continue, ctx_set s4 context ''last_rejection'' (JStr validation_msg))
         else
           (let (outcome, s5) = hitl_check e s4 cognition_output context
            in case outcome of
                 VirtualRejection \<Rightarrow> (Continue, s5)
               | Blocked \<Rightarrow> (Suspended, s5)
               | Proceed modified_action \<Rightarrow>
                   (let (action_result, s6) = action e s5 cognition_output modified_action;
                        s7 = ctx_set s6 context ''last_action_result'' action_result
                    in if is_final_action (cogs (objects s7) cognition_output)
                       then (Completed, s7) else (Continue, s7))))"

subsection \<open>The audit report\<close>

text \<open>
  \<open>asdict\<close> and \<open>to_dict\<close> turn traces, events and snapshots into plain dicts when
  the report is made. A reference is followed at that moment, so the report shows what
  the object holds then.
\<close>

definition event_value :: "HITLEventType \<Rightarrow> string" where
  "event_value ev =
     (case ev of APPROVAL_REQUESTED \<Rightarrow> ''approval_requested'' | APPROVED \<Rightarrow> ''approved''
      | REJECTED \<Rightarrow> ''rejected'' | MODIFIED \<Rightarrow> ''modified'' | STATE_FROZEN \<Rightarrow> ''state_frozen''
      | STATE_THAWED \<Rightarrow> ''state_thawed'' | TIMEOUT \<Rightarrow> ''timeout'' | DELEGATED \<Rightarrow> ''delegated'')"

definition module_value :: "ModuleType \<Rightarrow> string" where
  "module_value m =
     (case m of RETRIEVAL \<Rightarrow> ''Retrieval'' | COGNITION \<Rightarrow> ''Cognition'' | CONTROL \<Rightarrow> ''Control''
      | ACTION \<Rightarrow> ''Action'' | MEMORY \<Rightarrow> ''Memory'' | HITL \<Rightarrow> ''HITL'')"

definition reason_json :: "reason \<Rightarrow> json" where
  \<comment> \<open>the reason text; a confidence is shown by its value, not in the two-decimal form\<close>
  "reason_json r =
     (case r of
        HighRiskTool t \<Rightarrow> JStr (''High-risk tool: '' @ t)
      | ConfirmationRequiredFor t \<Rightarrow> JStr (''Confirmation required for: '' @ t)
      | FinalActionRequiresConfirmation \<Rightarrow> JStr ''Final action requires confirmation''
      | ExtendedLoopCount n \<Rightarrow> JStr (''Extended loop count: '' @ fmt_d 0 n)
      | LowConfidence c \<Rightarrow> JList [JStr ''Low confidence: '', JReal c]
      | MissingEvidenceCitations \<Rightarrow> JStr ''Missing evidence citations''
      | CustomReason t \<Rightarrow> JStr t
      | NoReason \<Rightarrow> JStr [])"

definition opt_json :: "('a \<Rightarrow> json) \<Rightarrow> 'a option \<Rightarrow> json" where
  "opt_json f x = (case x of None \<Rightarrow> JNull | Some v \<Rightarrow> f v)"

definition cog_json :: "heap \<Rightarrow> addr \<Rightarrow> json" where
  "cog_json h a =
     (let c = cogs h a in
      JDict ((case reasoning c of None \<Rightarrow> [] | Some r \<Rightarrow> [(''reasoning'', JStr r)])
             @ (case proposed_action c of None \<Rightarrow> []
                | Some p \<Rightarrow> [(''proposed_action'', action_json (acts h p))])
             @ (case evidence_refs c of None \<Rightarrow> []
                | Some xs \<Rightarrow> [(''evidence_refs'', JList (map JStr xs))])
             @ [(''is_final_action'', JBool (is_final_action c))]
             @ (case confidence c of None \<Rightarrow> [] | Some x \<Rightarrow> [(''confidence'', JReal x)])
             @ [(''control_validated'', JBool (control_validated c))]))"

definition error_text :: "hitl_error \<Rightarrow> string" where
  "error_text err =
     (case err of
        FrozenStateNotFound fid \<Rightarrow> ''Frozen state not found: '' @ fid
      | InvalidDecision d \<Rightarrow> ''Invalid decision: '' @ d
      | NotFoundAfterProcessing \<Rightarrow> ''Frozen state not found after processing'')"

definition next_action_json :: "heap \<Rightarrow> next_action \<Rightarrow> json" where
  "next_action_json h na =
     (case na of
        Execute a \<Rightarrow> JDict [(''action'', JStr ''execute''), (''proposed_action'', action_json (acts h a))]
      | RetryCognition fb \<Rightarrow>
          JDict [(''action'', JStr ''retry_cognition''), (''rejection_feedback'', JStr fb),
                 (''virtual_rejection_cycle'', JBool True)])"

definition decision_json :: "heap \<Rightarrow> hitl_error + decision_result \<Rightarrow> json" where
  "decision_json h r =
     (case r of
        Inl err \<Rightarrow> JDict [(''error'', JStr (error_text err))]
      | Inr d \<Rightarrow>
          JDict [(''status'', JStr ''processed''), (''decision'', JStr (d_decision d)),
                 (''trace_id'', JStr (d_trace_id d)), (''freeze_id'', JStr (d_freeze_id d)),
                 (''next_action'', next_action_json h (d_next_action d))])"

definition resolve :: "heap \<Rightarrow> payload \<Rightarrow> json" where
  "resolve h p =
     (case p of
        PJson j \<Rightarrow> j
      | PDictRef a \<Rightarrow> JDict (dicts h a)
      | PCogRef a \<Rightarrow> cog_json h a
      | PActRef a \<Rightarrow> action_json (acts h a)
      | PDecision r \<Rightarrow> decision_json h r)"

definition loop_trace_dict :: "heap \<Rightarrow> LoopTrace \<Rightarrow> dict" where
  \<comment> \<open>\<open>asdict(trace)\<close>\<close>
  "loop_trace_dict h t =
     [(''loop_id'', JStr (lt_loop_id t)),
      (''module'', JStr (module_value (lt_module t))),
      (''input_state'', resolve h (lt_input_state t)),
      (''output_state'', resolve h (lt_output_state t)),
      (''decision'', opt_json JStr (lt_decision t)),
      (''validation_result'', opt_json JBool (lt_validation_result t)),
      (''evidence_refs'', opt_json (\<lambda>xs. JList (map JStr xs)) (lt_evidence_refs t)),
      (''hitl_event'', opt_json (resolve h) (lt_hitl_event t))]"

definition hitl_trace_dict :: "heap \<Rightarrow> HITLTrace \<Rightarrow> dict" where
  \<comment> \<open>\<open>HITLTrace.to_dict\<close>\<close>
  "hitl_trace_dict h t =
     [(''trace_id'', JStr (t_trace_id t)),
      (''event_type'', JStr (event_value (t_event_type t))),
      (''freeze_id'', opt_json JStr (t_freeze_id t)),
      (''pending_action'', action_json (acts h (t_pending_action t))),
      (''human_decision'', opt_json JStr (t_human_decision t)),
      (''human_feedback'', opt_json JStr (t_human_feedback t)),
      (''modified_action'', opt_json (\<lambda>a. action_json (acts h a)) (t_modified_action t)),
      (''decision_rationale'', opt_json JStr (t_decision_rationale t)),
      (''actor'', JStr (t_actor t))]"

definition frozen_dict :: "heap \<Rightarrow> FrozenCognitiveState \<Rightarrow> dict" where
  \<comment> \<open>\<open>FrozenCognitiveState.to_dict\<close>\<close>
  "frozen_dict h f =
     [(''freeze_id'', JStr (f_freeze_id f)),
      (''loop_counter'', JInt (f_loop_counter f)),
      (''pending_action'', action_json (acts h (f_pending_action f))),
      (''cognition_output'', cog_json h (f_cognition_output f)),
      (''memory_snapshot'', JDict (dicts h (f_memory_snapshot f))),
      (''evidence_cache'', JDict (dicts h (f_evidence_cache f))),
      (''context'', JDict (dicts h (f_context f))),
      (''metaprompt_state'', JDict (dicts h (f_metaprompt_state f))),
      (''intervention_reason'', reason_json (f_intervention_reason f)),
      (''intervention_level'', JStr (level_value (f_intervention_level f)))]"

record statistics =
  total_interventions :: nat
  approvals :: nat
  rejections :: nat
  modifications :: nat
  frozen_states_count :: nat

record audit_log =
  hitl_events :: "dict list"
  al_frozen_states :: "(string \<times> dict) list"
  al_statistics :: statistics

definition count_events :: "HITLEventType \<Rightarrow> HITLTrace list \<Rightarrow> nat" where
  \<comment> \<open>\<open>sum(1 for t in self.hitl_traces if t.event_type == ...)\<close>\<close>
  "count_events ev ts = length (filter (\<lambda>t. t_event_type t = ev) ts)"

definition get_audit_log :: "HITLManager \<Rightarrow> heap \<Rightarrow> audit_log" where
  "get_audit_log m h =
     \<lparr>hitl_events = map (hitl_trace_dict h) (hitl_traces m),
      al_frozen_states = map (\<lambda>(fid, fs). (fid, frozen_dict h fs)) (frozen_states m),
      al_statistics =
        \<lparr>total_interventions = length (hitl_traces m),
         approvals = count_events APPROVED (hitl_traces m),
         rejections = count_events REJECTED (hitl_traces m),
         modifications = count_events MODIFIED (hitl_traces m),
         frozen_states_count = length (frozen_states m)\<rparr>\<rparr>"

record summary =
  total_loops :: int
  policy_violations :: nat
  hitl_interventions :: nat
  hitl_approvals :: nat
  hitl_rejections :: nat
  final_state :: json

record audit_report =
  rp_task :: json
  rp_policies :: "string list"
  rp_hitl_mode :: string
  rp_log :: "dict list"
  rp_hitl_log :: audit_log
  rp_summary :: summary

definition generate_audit_report :: "scl \<Rightarrow> audit_report" where
  "generate_audit_report s =
     (let hitl_audit = get_audit_log (hitl_manager s) (objects s)
      in \<lparr>rp_task = memory_read (memory s) ''task'',
          rp_policies = rule_names,
          rp_hitl_mode = hitl_mode s,
          rp_log = map (loop_trace_dict (objects s)) (history (memory s)),
          rp_hitl_log = hitl_audit,
          rp_summary =
            \<lparr>total_loops = loop_counter s,
             policy_violations =
               length (filter (\<lambda>t. lt_validation_result t = Some False) (history (memory s))),
             hitl_interventions = total_interventions (al_statistics hitl_audit),
             hitl_approvals = approvals (al_statistics hitl_audit),
             hitl_rejections = rejections (al_statistics hitl_audit),
             final_state = get_state_summary (memory s)\<rparr>\<rparr>)"

subsection \<open>The loop counter through one pass\<close>

text \<open>
  Only \<open>cognition\<close> writes the loop counter during a pass, and nothing writes the
  ceiling. This is what makes the \<open>while\<close> loop end.
\<close>

lemma log_trace_fields [simp]:
  "frozen_states (snd (log_trace m ev fid pa hdec hf ma dr actor)) = frozen_states m"
  "hitl_traces (snd (log_trace m ev fid pa hdec hf ma dr actor))
     = hitl_traces m @ [fst (log_trace m ev fid pa hdec hf ma dr actor)]"
  "freeze_counter (snd (log_trace m ev fid pa hdec hf ma dr actor)) = freeze_counter m"
  "trace_counter (snd (log_trace m ev fid pa hdec hf ma dr actor)) = trace_counter m + 1"
  "policy (snd (log_trace m ev fid pa hdec hf ma dr actor)) = policy m"
  by (simp_all add: log_trace_def generate_trace_id_def Let_def)

lemma log_trace_event [simp]:
  "t_event_type (fst (log_trace m ev fid pa hdec hf ma dr actor)) = ev"
  "t_freeze_id (fst (log_trace m ev fid pa hdec hf ma dr actor)) = fid"
  "t_actor (fst (log_trace m ev fid pa hdec hf ma dr actor)) = actor"
  "t_pending_action (fst (log_trace m ev fid pa hdec hf ma dr actor)) = pa"
  "t_trace_id (fst (log_trace m ev fid pa hdec hf ma dr actor))
     = ''HITL-'' @ fmt_d 4 (int (trace_counter m + 1))"
  by (simp_all add: log_trace_def generate_trace_id_def Let_def)

lemma ctx_ops_counter [simp]:
  "loop_counter (ctx_set s a k v) = loop_counter s"
  "max_loops (ctx_set s a k v) = max_loops s"
  "loop_counter (ctx_pop s a k) = loop_counter s"
  "max_loops (ctx_pop s a k) = max_loops s"
  "loop_counter (ctx_update s a u) = loop_counter s"
  "max_loops (ctx_update s a u) = max_loops s"
  by (simp_all add: ctx_set_def ctx_pop_def ctx_update_def)

lemma cognition_counter [simp]:
  "loop_counter (snd (cognition e s c)) = loop_counter s + 1"
  "max_loops (snd (cognition e s c)) = max_loops s"
  by (simp_all add: cognition_def Let_def split_beta)

lemma control_counter [simp]:
  "loop_counter (snd (control e s c)) = loop_counter s"
  "max_loops (snd (control e s c)) = max_loops s"
  by (simp_all add: control_def Let_def split_beta)

lemma hitl_result_counter [simp]:
  "loop_counter (snd (hitl_result s c fr lv r)) = loop_counter s"
  "max_loops (snd (hitl_result s c fr lv r)) = max_loops s"
  by (simp_all add: hitl_result_def Let_def split_beta split: sum.splits next_action.splits)

lemma hitl_check_counter [simp]:
  "loop_counter (snd (hitl_check e s c x)) = loop_counter s"
  "max_loops (snd (hitl_check e s c x)) = max_loops s"
  by (simp_all add: hitl_check_def Let_def split_beta split: option.splits)

lemma action_counter [simp]:
  "loop_counter (snd (action e s c ma)) = loop_counter s"
  "max_loops (snd (action e s c ma)) = max_loops s"
  by (simp_all add: action_def Let_def split_beta split: sum.splits)

lemma iteration_counter [simp]:
  "loop_counter (snd (iteration e mg s c)) = loop_counter s + 1"
  "max_loops (snd (iteration e mg s c)) = max_loops s"
  by (simp_all add: iteration_def Let_def split_beta split: hitl_outcome.splits)

subsection \<open>\<open>run\<close>, \<open>_continue_execution\<close> and \<open>resume_from_freeze\<close>\<close>

text \<open>
  \<open>while self.loop_counter < self.max_loops\<close>. The result names the way the loop was
  left: \<open>Exhausted\<close> when the condition failed, else what the last pass said. The
  Python does not record this anywhere; it is kept here to speak about it.
\<close>

function run_loop :: "env \<Rightarrow> bool \<Rightarrow> scl \<Rightarrow> addr \<Rightarrow> loop_exit \<times> scl" where
  "run_loop e merge s context =
     (if loop_counter s < max_loops s then
        (let r = iteration e merge s context
         in if fst r = Continue then run_loop e merge (snd r) context else r)
      else (Exhausted, s))"
  by pat_completeness auto
termination
  by (relation "measure (\<lambda>(e, merge, s, context). nat (max_loops s - loop_counter s))") auto

declare run_loop.simps [simp del]

definition run_start :: "scl \<Rightarrow> string \<Rightarrow> addr \<times> scl" where
  \<comment> \<open>the part of \<open>run\<close> before the loop: retrieval, and the context dict\<close>
  "run_start s task =
     (let (retrieval_result, s1) = retrieval s task;
          (context, h1) = alloc_dict (objects s1)
                            [(''task'', JStr task), (''retrieval_plan'', retrieval_result),
                             (''status'', JStr ''in_progress'')]
      in (context, s1\<lparr>objects := h1\<rparr>))"

definition run_exit :: "env \<Rightarrow> scl \<Rightarrow> string \<Rightarrow> loop_exit \<times> scl" where
  \<comment> \<open>\<open>run\<close> up to the end of its loop\<close>
  "run_exit e s task = (let (context, s1) = run_start s task in run_loop e True s1 context)"

definition run :: "env \<Rightarrow> scl \<Rightarrow> string \<Rightarrow> audit_report \<times> scl" where
  "run e s task = (let (x, s1) = run_exit e s task in (generate_audit_report s1, s1))"

definition continue_execution :: "env \<Rightarrow> scl \<Rightarrow> addr \<Rightarrow> audit_report \<times> scl" where
  \<comment> \<open>\<open>_continue_execution\<close>\<close>
  "continue_execution e s context =
     (let (x, s1) = run_loop e False s context in (generate_audit_report s1, s1))"

definition restore_from :: "scl \<Rightarrow> HITLManager \<Rightarrow> FrozenCognitiveState \<Rightarrow> scl" where
  \<comment> \<open>the three assignments under \<open># Restore state\<close> in \<open>resume_from_freeze\<close>\<close>
  "restore_from s m frozen =
     (let mem1 = restore_snapshot (memory s) (dicts (objects s) (f_memory_snapshot frozen));
          mem2 = restore_evidence mem1 (dicts (objects s) (f_evidence_cache frozen))
      in s\<lparr>hitl_manager := m, memory := mem2, loop_counter := f_loop_counter frozen\<rparr>)"

definition resume_restored :: "scl \<Rightarrow> HITLManager \<Rightarrow> FrozenCognitiveState \<Rightarrow> string \<Rightarrow> scl" where
  \<comment> \<open>\<open>resume_from_freeze\<close> after the decision: the state is restored, the snapshot thawed\<close>
  "resume_restored s m1 frozen freeze_id =
     (let s1 = restore_from s m1 frozen;
          (fr, m2) = thaw_state (hitl_manager s1) freeze_id
      in s1\<lparr>hitl_manager := m2\<rparr>)"

definition resume_continue ::
  "env \<Rightarrow> scl \<Rightarrow> FrozenCognitiveState \<Rightarrow> next_action \<Rightarrow> string option \<Rightarrow> audit_report \<times> scl" where
  \<comment> \<open>the rest of \<open>resume_from_freeze\<close>, from \<open># Determine next action\<close> on\<close>
  "resume_continue e s2 frozen next_action feedback =
     (let context = f_context frozen
      in case next_action of
           Execute modified \<Rightarrow>
             (let (action_result, s3) = action e s2 (f_cognition_output frozen) (Some modified);
                  s4 = ctx_set s3 context ''last_action_result'' action_result
              in if \<not> is_final_action (cogs (objects s4) (f_cognition_output frozen))
                 then continue_execution e (s4\<lparr>is_resumed := True\<rparr>) context
                 else (generate_audit_report s4, s4))
         | RetryCognition fb \<Rightarrow>
             (let s3 = ctx_update s2 context
                         [(''human_rejected'', JBool True),
                          (''rejection_reason'',
                             JStr (case feedback of None \<Rightarrow> ''Action rejected by human''
                                   | Some f \<Rightarrow> f)),
                          (''retry_guidance'',
                             JStr ''Consider alternative approaches based on human feedback'')]
              in continue_execution e (s3\<lparr>is_resumed := True\<rparr>) context))"

definition resume_from_freeze ::
  "env \<Rightarrow> scl \<Rightarrow> string \<Rightarrow> string \<Rightarrow> string option \<Rightarrow> addr option \<Rightarrow> string option
     \<Rightarrow> (hitl_error + audit_report) \<times> scl" where
  "resume_from_freeze e s freeze_id decision feedback modified_action rationale =
     (case process_human_decision (hitl_manager s) (objects s) freeze_id decision feedback
             modified_action rationale of
        (Inl err, m1) \<Rightarrow> (Inl err, s\<lparr>hitl_manager := m1\<rparr>)
      | (Inr result, m1) \<Rightarrow>
          (case map_of (frozen_states m1) freeze_id of
             None \<Rightarrow> (Inl NotFoundAfterProcessing, s\<lparr>hitl_manager := m1\<rparr>)
           | Some frozen \<Rightarrow>
               (let (rep, s') = resume_continue e (resume_restored s m1 frozen freeze_id) frozen
                                  (d_next_action result) feedback
                in (Inr rep, s'))))"

section \<open>The rule order of the intervention policy\<close>

text \<open>
  C4. \<open>evaluate\<close> follows the rule order of the specification, the first rule that
  applies deciding: high-risk set, always-confirm set, final action, loop-count threshold,
  low confidence, missing evidence, the custom rule registered for the capability, and
  \<open>none\<close> by default. In particular a cognition output whose capability name is in the
  high-risk set gets \<open>approve\<close>, whatever its confidence, the loop counter, its evidence
  and the registered handlers are.
\<close>

theorem evaluate_follows_rule_order:
  "evaluate pol cog ctx n = spec_rule_order pol cog ctx n
   \<and> (action_tool cog \<in> set (high_risk_tools (policies pol))
        \<longrightarrow> evaluate pol cog ctx n = (APPROVE, HighRiskTool (action_tool cog)))"
proof
  show "evaluate pol cog ctx n = spec_rule_order pol cog ctx n"
    by (cases "confidence cog"; cases "custom_handlers pol (action_tool cog)")
       (simp_all add: evaluate_def spec_rule_order_def)
  show "action_tool cog \<in> set (high_risk_tools (policies pol))
        \<longrightarrow> evaluate pol cog ctx n = (APPROVE, HighRiskTool (action_tool cog))"
    by (simp add: evaluate_def)
qed

definition risky_cog :: "action cognition" where
  \<comment> \<open>a final, unsupported, low-confidence proposal to send an email\<close>
  "risky_cog =
     \<lparr>reasoning = Some ''send it'',
      proposed_action = Some \<lparr>tool_name = Some ''send_email'', parameters = None\<rparr>,
      evidence_refs = None, is_final_action = True, confidence = Some 0.1,
      control_validated = False\<rparr>"

theorem evaluate_follows_rule_order_witness:
  "action_tool risky_cog \<in> set (high_risk_tools (policies default_policy))
   \<and> evaluate (register_handler default_policy ''send_email'' (\<lambda>c x. (NONE, NoReason)))
         risky_cog [] 50
       = (APPROVE, HighRiskTool ''send_email'')"
proof -
  have tool: "action_tool risky_cog = ''send_email''"
    by (simp add: action_tool_def risky_cog_def)
  have pol: "policies (register_handler default_policy ''send_email'' (\<lambda>c x. (NONE, NoReason)))
               = default_policies"
    by (simp add: register_handler_def default_policy_def)
  have mem: "''send_email'' \<in> set (high_risk_tools default_policies)"
    by (simp add: default_policies_def)
  have mem': "action_tool risky_cog \<in> set (high_risk_tools (policies default_policy))"
    by (simp add: tool mem default_policy_def)
  have "action_tool risky_cog \<in> set (high_risk_tools (policies
          (register_handler default_policy ''send_email'' (\<lambda>c x. (NONE, NoReason)))))"
    by (simp only: pol tool mem)
  with evaluate_follows_rule_order
         [of "register_handler default_policy ''send_email'' (\<lambda>c x. (NONE, NoReason))"
             risky_cog "[]" 50]
  have "evaluate (register_handler default_policy ''send_email'' (\<lambda>c x. (NONE, NoReason)))
          risky_cog [] 50 = (APPROVE, HighRiskTool (action_tool risky_cog))"
    by blast
  with mem' show ?thesis by (simp only: tool simp_thms)
qed

section \<open>Decisions on a stored snapshot\<close>

subsection \<open>What the manager's operations do to its state\<close>

lemma freeze_state_fields [simp]:
  "f_freeze_id (fst (freeze_state m h lc c ms ev cx mp lv rs))
     = ''FREEZE-'' @ fmt_d 4 (int (freeze_counter m + 1))"
  "f_loop_counter (fst (freeze_state m h lc c ms ev cx mp lv rs)) = lc"
  "f_intervention_level (fst (freeze_state m h lc c ms ev cx mp lv rs)) = lv"
  "f_intervention_reason (fst (freeze_state m h lc c ms ev cx mp lv rs)) = rs"
  by (simp_all add: freeze_state_def generate_freeze_id_def Let_def split_beta)

lemma freeze_state_manager [simp]:
  "frozen_states (fst (snd (freeze_state m h lc c ms ev cx mp lv rs)))
     = AList.update (''FREEZE-'' @ fmt_d 4 (int (freeze_counter m + 1)))
         (fst (freeze_state m h lc c ms ev cx mp lv rs)) (frozen_states m)"
  "freeze_counter (fst (snd (freeze_state m h lc c ms ev cx mp lv rs))) = freeze_counter m + 1"
  "trace_counter (fst (snd (freeze_state m h lc c ms ev cx mp lv rs))) = trace_counter m + 1"
  "policy (fst (snd (freeze_state m h lc c ms ev cx mp lv rs))) = policy m"
  by (simp_all add: freeze_state_def generate_freeze_id_def Let_def split_beta)

lemma freeze_state_traces:
  "\<exists>t. hitl_traces (fst (snd (freeze_state m h lc c ms ev cx mp lv rs))) = hitl_traces m @ [t]
       \<and> t_event_type t = STATE_FROZEN
       \<and> t_freeze_id t = Some (''FREEZE-'' @ fmt_d 4 (int (freeze_counter m + 1)))
       \<and> t_actor t = ''system''"
  by (simp add: freeze_state_def generate_freeze_id_def Let_def split_beta)

lemma thaw_state_absent:
  "map_of (frozen_states m) fid = None \<Longrightarrow> thaw_state m fid = (None, m)"
  by (simp add: thaw_state_def)

lemma thaw_state_present:
  "map_of (frozen_states m) fid = Some fr \<Longrightarrow>
   thaw_state m fid
     = (Some fr, snd (log_trace m STATE_THAWED (Some fid) (f_pending_action fr)
                        None None None None ''system''))"
  by (simp add: thaw_state_def split_beta)

lemma thaw_state_manager [simp]:
  "frozen_states (snd (thaw_state m fid)) = frozen_states m"
  "freeze_counter (snd (thaw_state m fid)) = freeze_counter m"
  "policy (snd (thaw_state m fid)) = policy m"
  by (simp_all add: thaw_state_def split_beta split: option.splits)

lemma request_approval_manager [simp]:
  "frozen_states (snd (request_approval m h fr)) = frozen_states m"
  "freeze_counter (snd (request_approval m h fr)) = freeze_counter m"
  "policy (snd (request_approval m h fr)) = policy m"
  "hitl_traces (snd (request_approval m h fr))
     = hitl_traces m @ [fst (log_trace m APPROVAL_REQUESTED (Some (f_freeze_id fr))
                               (f_pending_action fr) None None None None ''system'')]"
  by (simp_all add: request_approval_def split_beta Let_def)

lemma request_approval_id [simp]:
  "r_freeze_id (fst (request_approval m h fr)) = f_freeze_id fr"
  "r_pending_action (fst (request_approval m h fr)) = f_pending_action fr"
  by (simp_all add: request_approval_def split_beta Let_def)

definition decision_event :: "string \<Rightarrow> HITLEventType" where
  \<comment> \<open>the event type \<open>process_human_decision\<close> picks for a decision it accepts\<close>
  "decision_event dec =
     (if dec = ''approve'' then APPROVED else if dec = ''reject'' then REJECTED else MODIFIED)"

lemma process_human_decision_ok:
  assumes "map_of (frozen_states m) fid = Some fr"
    and "dec = ''approve'' \<or> dec = ''reject'' \<or> dec = ''modify''"
  shows "process_human_decision m h fid dec fb ma ra =
           (Inr \<lparr>d_decision = dec,
                 d_trace_id = ''HITL-'' @ fmt_d 4 (int (trace_counter m + 1)),
                 d_freeze_id = fid,
                 d_next_action = determine_next_action h dec fr ma\<rparr>,
            snd (log_trace m (decision_event dec) (Some fid) (f_pending_action fr)
                   (Some dec) fb ma ra ''human''))"
proof -
  have v: "\<not> (dec \<noteq> ''approve'' \<and> dec \<noteq> ''reject'' \<and> dec \<noteq> ''modify'')"
    using assms(2) by blast
  show ?thesis
    unfolding process_human_decision_def decision_event_def
    by (simp only: assms(1) option.case v if_False Let_def split_beta log_trace_event)
qed

lemma process_human_decision_err:
  assumes "map_of (frozen_states m) fid = None
           \<or> (dec \<noteq> ''approve'' \<and> dec \<noteq> ''reject'' \<and> dec \<noteq> ''modify'')"
  shows "process_human_decision m h fid dec fb ma ra =
           (Inl (if map_of (frozen_states m) fid = None then FrozenStateNotFound fid
                 else InvalidDecision dec), m)"
proof (cases "map_of (frozen_states m) fid")
  case None
  then show ?thesis by (simp add: process_human_decision_def)
next
  case (Some fr)
  with assms have v: "dec \<noteq> ''approve'' \<and> dec \<noteq> ''reject'' \<and> dec \<noteq> ''modify''" by simp
  show ?thesis
    unfolding process_human_decision_def
    by (simp only: Some option.case v if_True) simp
qed

lemma process_human_decision_cases:
  "(\<exists>d fr. map_of (frozen_states m) fid = Some fr
        \<and> (dec = ''approve'' \<or> dec = ''reject'' \<or> dec = ''modify'')
        \<and> process_human_decision m h fid dec fb ma ra
            = (Inr d, snd (log_trace m (decision_event dec) (Some fid) (f_pending_action fr)
                             (Some dec) fb ma ra ''human'')))
   \<or> (\<exists>err. process_human_decision m h fid dec fb ma ra = (Inl err, m))"
proof (cases "map_of (frozen_states m) fid = None
              \<or> (dec \<noteq> ''approve'' \<and> dec \<noteq> ''reject'' \<and> dec \<noteq> ''modify'')")
  case True
  from process_human_decision_err [OF this] show ?thesis by blast
next
  case False
  then obtain fr where fr: "map_of (frozen_states m) fid = Some fr"
    and v: "dec = ''approve'' \<or> dec = ''reject'' \<or> dec = ''modify''" by auto
  from process_human_decision_ok [OF fr v] fr v show ?thesis by blast
qed

lemma process_human_decision_manager [simp]:
  "frozen_states (snd (process_human_decision m h fid dec fb ma ra)) = frozen_states m"
  "freeze_counter (snd (process_human_decision m h fid dec fb ma ra)) = freeze_counter m"
  "policy (snd (process_human_decision m h fid dec fb ma ra)) = policy m"
  using process_human_decision_cases [of m fid dec h fb ma ra] by auto

subsection \<open>The demonstration of the repository\<close>

text \<open>
  The input \<open>demonstrate_freeze_resume\<close> of \<open>run_experiment.py\<close> uses: a send-email
  proposal frozen at loop 3 by a new manager, then approved.
\<close>

definition demo_heap :: heap where
  "demo_heap =
     \<lparr>dicts = (\<lambda>_. [])
        (2 := [(''task'', JStr ''Check weather and send travel notification email''),
               (''weather_collected'', JBool True)],
         3 := [(''wx-001'', JDict [(''city'', JStr ''Miami''), (''temp'', JInt 78)])],
         4 := [(''status'', JStr ''pending_email'')],
         5 := [(''rules'', JDict [])]),
      cogs = (\<lambda>_. empty_cog)
        (1 := \<lparr>reasoning = Some ''All weather data collected. Sending email to confirm destination.'',
               proposed_action = Some 0,
               evidence_refs = Some [''weather_sf'', ''weather_miami'', ''weather_atlanta''],
               is_final_action = True, confidence = None, control_validated = False\<rparr>),
      acts = (\<lambda>_. empty_action)
        (0 := \<lparr>tool_name = Some ''send_email'',
               parameters = Some [(''recipient'', JStr ''test-scl@test.com''),
                                  (''subject'', JStr ''Travel Plan: Miami'')]\<rparr>),
      next_addr = 6\<rparr>"

definition demo_freeze :: "FrozenCognitiveState \<times> HITLManager \<times> heap" where
  "demo_freeze = freeze_state (new_manager default_policy) demo_heap 3 1 2 3 4 5 APPROVE
                   (HighRiskTool ''send_email'')"

definition demo_manager :: HITLManager where
  "demo_manager = fst (snd demo_freeze)"

definition demo_store :: heap where
  "demo_store = snd (snd demo_freeze)"

definition first_decision :: "(hitl_error + decision_result) \<times> HITLManager" where
  "first_decision =
     process_human_decision demo_manager demo_store ''FREEZE-0001'' ''approve'' None None
       (Some ''Confirmed destination is correct'')"

definition second_decision :: "(hitl_error + decision_result) \<times> HITLManager" where
  "second_decision =
     process_human_decision (snd first_decision) demo_store ''FREEZE-0001'' ''approve'' None None
       (Some ''Confirmed destination is correct'')"

lemma fmt_small:
  "fmt_d 4 1 = ''0001''" "fmt_d 4 2 = ''0002''" "fmt_d 4 3 = ''0003''" "fmt_d 4 4 = ''0004''"
  by code_simp+

lemma demo_manager_facts:
  "map_of (frozen_states demo_manager) ''FREEZE-0001'' = Some (fst demo_freeze)"
  "frozen_states demo_manager = [(''FREEZE-0001'', fst demo_freeze)]"
  "trace_counter demo_manager = 1"
  "freeze_counter demo_manager = 1"
  by (simp_all add: demo_manager_def demo_freeze_def new_manager_def fmt_small)

lemma demo_manager_traces: "map t_event_type (hitl_traces demo_manager) = [STATE_FROZEN]"
  using freeze_state_traces [of "new_manager default_policy" demo_heap 3 1 2 3 4 5 APPROVE
          "HighRiskTool ''send_email''"]
  by (auto simp: demo_manager_def demo_freeze_def new_manager_def)

text \<open>
  C1, as stated, fails: nothing marks a snapshot as decided, and a decision does not
  remove it. In the demonstration the approval of \<open>FREEZE-0001\<close> is processed a second
  time with the same answer, and the log holds two \<open>approved\<close> events.
\<close>

theorem second_decision_succeeds:
  "map_sum id d_trace_id (fst first_decision) = Inr ''HITL-0002''
   \<and> map_sum id d_trace_id (fst second_decision) = Inr ''HITL-0003''
   \<and> map t_event_type (hitl_traces (snd second_decision)) = [STATE_FROZEN, APPROVED, APPROVED]"
proof -
  note first = process_human_decision_ok [OF demo_manager_facts(1), of "''approve''" demo_store
      None None "Some ''Confirmed destination is correct''"]
  have st1: "map_of (frozen_states (snd first_decision)) ''FREEZE-0001'' = Some (fst demo_freeze)"
    using first demo_manager_facts(1) by (simp add: first_decision_def)
  note second = process_human_decision_ok [OF st1, of "''approve''" demo_store
      None None "Some ''Confirmed destination is correct''"]
  show ?thesis
    using first second demo_manager_facts(3) demo_manager_traces
    by (simp add: first_decision_def second_decision_def fmt_small decision_event_def)
qed

text \<open>
  C1, amended. A decision on a stored snapshot succeeds every time: while the identifier
  is in the snapshot store and the decision is one of approve, reject and modify, the call
  appends one decision event and leaves the store as it is, so the same call succeeds
  again. It fails with "Frozen state not found" once \<open>cleanup_frozen_state\<close> has removed
  the snapshot.
\<close>

theorem decision_succeeds_while_stored:
  assumes "map_of (frozen_states m) fid = Some fr"
    and "dec = ''approve'' \<or> dec = ''reject'' \<or> dec = ''modify''"
  shows "(\<exists>d1. fst (process_human_decision m h fid dec fb ma ra) = Inr d1)
         \<and> frozen_states (snd (process_human_decision m h fid dec fb ma ra)) = frozen_states m
         \<and> length (hitl_traces (snd (process_human_decision m h fid dec fb ma ra)))
             = length (hitl_traces m) + 1
         \<and> (\<exists>d2. fst (process_human_decision (snd (process_human_decision m h fid dec fb ma ra))
                        h fid dec fb ma ra) = Inr d2)
         \<and> fst (process_human_decision
                  (cleanup_frozen_state (snd (process_human_decision m h fid dec fb ma ra)) fid)
                  h fid dec fb ma ra) = Inl (FrozenStateNotFound fid)"
proof -
  let ?m1 = "snd (process_human_decision m h fid dec fb ma ra)"
  note first = process_human_decision_ok [OF assms, of h fb ma ra]
  have st1: "map_of (frozen_states ?m1) fid = Some fr"
    using assms(1) by simp
  note second = process_human_decision_ok [OF st1 assms(2), of h fb ma ra]
  have gone: "map_of (frozen_states (cleanup_frozen_state ?m1 fid)) fid = None"
    by (simp add: cleanup_frozen_state_def AList.delete_conv')
  have third: "fst (process_human_decision (cleanup_frozen_state ?m1 fid) h fid dec fb ma ra)
                 = Inl (FrozenStateNotFound fid)"
    using process_human_decision_err [of "cleanup_frozen_state ?m1 fid" fid dec h fb ma ra] gone
    by simp
  show ?thesis
    using first second third by simp
qed

theorem decision_succeeds_while_stored_witness:
  "map_of (frozen_states demo_manager) ''FREEZE-0001'' = Some (fst demo_freeze)
   \<and> (\<exists>d2. fst second_decision = Inr d2)
   \<and> frozen_states (snd first_decision) = frozen_states demo_manager
   \<and> fst (process_human_decision (cleanup_frozen_state (snd first_decision) ''FREEZE-0001'')
             demo_store ''FREEZE-0001'' ''approve'' None None
             (Some ''Confirmed destination is correct''))
       = Inl (FrozenStateNotFound ''FREEZE-0001'')"
  using decision_succeeds_while_stored [OF demo_manager_facts(1), of "''approve''" demo_store
      None None "Some ''Confirmed destination is correct''"]
    demo_manager_facts(1)
  by (simp add: first_decision_def second_decision_def)

subsection \<open>Calls that are refused\<close>

text \<open>
  C7. A decision for an identifier that is not in the snapshot store, or with a decision
  other than approve, reject and modify, returns an error and changes nothing: the manager
  (its snapshots, its audit log, its counters) is returned as it was, and
  \<open>resume_from_freeze\<close> hands the error on and leaves the whole loop object as it was.
\<close>

theorem refused_decision_changes_nothing:
  assumes "map_of (frozen_states (hitl_manager s)) fid = None
           \<or> (dec \<noteq> ''approve'' \<and> dec \<noteq> ''reject'' \<and> dec \<noteq> ''modify'')"
  shows "process_human_decision (hitl_manager s) (objects s) fid dec fb ma ra
           = (Inl (if map_of (frozen_states (hitl_manager s)) fid = None
                   then FrozenStateNotFound fid else InvalidDecision dec), hitl_manager s)
         \<and> resume_from_freeze e s fid dec fb ma ra
             = (Inl (if map_of (frozen_states (hitl_manager s)) fid = None
                     then FrozenStateNotFound fid else InvalidDecision dec), s)"
proof -
  note err = process_human_decision_err [OF assms, of "objects s" fb ma ra]
  then show ?thesis
    by (simp add: resume_from_freeze_def)
qed

definition demo_env :: env where
  "demo_env =
     \<lparr>cognition_engine = (\<lambda>p c. \<lparr>reasoning = None, proposed_action = None, evidence_refs = None,
                                  is_final_action = False, confidence = None,
                                  control_validated = False\<rparr>),
      json_dumps = (\<lambda>d. concat (map fst d)),
      console = (\<lambda>r. ChooseApprove None)\<rparr>"

definition demo_scl :: scl where
  \<comment> \<open>a loop object holding the manager and the objects of the demonstration\<close>
  "demo_scl = (new_scl [] new_metaprompt default_policy 20 ''interactive'')
                \<lparr>hitl_manager := demo_manager, objects := demo_store\<rparr>"

theorem refused_decision_changes_nothing_witness:
  "map_of (frozen_states (hitl_manager demo_scl)) ''FREEZE-0002'' = None
   \<and> resume_from_freeze demo_env demo_scl ''FREEZE-0002'' ''approve'' None None None
       = (Inl (FrozenStateNotFound ''FREEZE-0002''), demo_scl)
   \<and> process_human_decision (hitl_manager demo_scl) (objects demo_scl) ''FREEZE-0001'' ''postpone''
         None None None
       = (Inl (InvalidDecision ''postpone''), hitl_manager demo_scl)
   \<and> resume_from_freeze demo_env demo_scl ''FREEZE-0001'' ''postpone'' None None None
       = (Inl (InvalidDecision ''postpone''), demo_scl)"
proof -
  have absent: "map_of (frozen_states (hitl_manager demo_scl)) ''FREEZE-0002'' = None"
    by (simp add: demo_scl_def demo_manager_facts(2))
  have present: "map_of (frozen_states (hitl_manager demo_scl)) ''FREEZE-0001'' \<noteq> None"
    by (simp add: demo_scl_def demo_manager_facts(2))
  have bad: "''postpone'' \<noteq> ''approve'' \<and> ''postpone'' \<noteq> ''reject'' \<and> ''postpone'' \<noteq> ''modify''"
    by simp
  from refused_decision_changes_nothing [of demo_scl "''FREEZE-0002''" "''approve''"
         None None None demo_env] absent
  have a: "resume_from_freeze demo_env demo_scl ''FREEZE-0002'' ''approve'' None None None
             = (Inl (FrozenStateNotFound ''FREEZE-0002''), demo_scl)"
    by simp
  from refused_decision_changes_nothing [of demo_scl "''FREEZE-0001''" "''postpone''"
         None None None demo_env] bad present
  have b: "process_human_decision (hitl_manager demo_scl) (objects demo_scl) ''FREEZE-0001''
             ''postpone'' None None None = (Inl (InvalidDecision ''postpone''), hitl_manager demo_scl)
           \<and> resume_from_freeze demo_env demo_scl ''FREEZE-0001'' ''postpone'' None None None
               = (Inl (InvalidDecision ''postpone''), demo_scl)"
    by simp
  from absent a b show ?thesis by blast
qed

section \<open>The audit log through a run\<close>

subsection \<open>What a run can do to the manager\<close>

text \<open>
  The loop touches the suspension manager only through its operations. \<open>mgr_steps m m'\<close>
  says that \<open>m'\<close> comes from \<open>m\<close> by a sequence of them; a property of the audit log
  that every operation keeps is then kept by every run.
\<close>

inductive mgr_steps :: "HITLManager \<Rightarrow> HITLManager \<Rightarrow> bool" where
  same: "mgr_steps m m"
| frozen: "mgr_steps m m1 \<Longrightarrow> mgr_steps m (fst (snd (freeze_state m1 h lc c ms ev cx mp lv rs)))"
| thawed: "mgr_steps m m1 \<Longrightarrow> mgr_steps m (snd (thaw_state m1 fid))"
| requested: "mgr_steps m m1 \<Longrightarrow> mgr_steps m (snd (request_approval m1 h fr))"
| decided: "mgr_steps m m1 \<Longrightarrow> mgr_steps m (snd (process_human_decision m1 h fid dec fb ma ra))"
| cleaned: "mgr_steps m m1 \<Longrightarrow> mgr_steps m (cleanup_frozen_state m1 fid)"

lemma mgr_steps_trans: "mgr_steps m2 m3 \<Longrightarrow> mgr_steps m1 m2 \<Longrightarrow> mgr_steps m1 m3"
  by (induction rule: mgr_steps.induct) (auto intro: mgr_steps.intros)

lemma ctx_ops_manager [simp]:
  "hitl_manager (ctx_set s a k v) = hitl_manager s"
  "hitl_manager (ctx_pop s a k) = hitl_manager s"
  "hitl_manager (ctx_update s a u) = hitl_manager s"
  by (simp_all add: ctx_set_def ctx_pop_def ctx_update_def)

lemma cognition_manager [simp]: "hitl_manager (snd (cognition e s c)) = hitl_manager s"
  by (simp add: cognition_def Let_def split_beta)

lemma control_manager [simp]: "hitl_manager (snd (control e s c)) = hitl_manager s"
  by (simp add: control_def Let_def split_beta)

lemma action_manager [simp]: "hitl_manager (snd (action e s c ma)) = hitl_manager s"
  by (simp add: action_def Let_def split_beta split: sum.splits)

lemma retrieval_manager [simp]: "hitl_manager (snd (retrieval s task)) = hitl_manager s"
  by (simp add: retrieval_def Let_def)

lemma hitl_result_steps:
  "mgr_steps m0 (hitl_manager s) \<Longrightarrow> mgr_steps m0 (hitl_manager (snd (hitl_result s c fr lv r)))"
  by (auto simp: hitl_result_def Let_def split_beta split: sum.splits next_action.splits
           intro: mgr_steps.intros)

lemma handle_intervention_steps:
  "mgr_steps m0 m \<Longrightarrow> mgr_steps m0 (snd (fst (handle_intervention e auto m h rq)))"
  by (auto simp: handle_intervention_def split_beta split: human_choice.splits
           intro: mgr_steps.intros)

lemma hitl_check_steps:
  "mgr_steps m0 (hitl_manager s) \<Longrightarrow> mgr_steps m0 (hitl_manager (snd (hitl_check e s c x)))"
  unfolding hitl_check_def Let_def split_beta
  by (auto split: option.splits
           intro!: hitl_result_steps handle_intervention_steps mgr_steps.frozen
                   mgr_steps.requested mgr_steps.decided)

lemma iteration_steps:
  "mgr_steps m0 (hitl_manager s) \<Longrightarrow> mgr_steps m0 (hitl_manager (snd (iteration e mg s c)))"
  unfolding iteration_def Let_def split_beta
  by (auto split: hitl_outcome.splits intro!: hitl_check_steps)

lemma run_loop_steps:
  "mgr_steps m0 (hitl_manager s) \<Longrightarrow> mgr_steps m0 (hitl_manager (snd (run_loop e mg s c)))"
proof (induction e mg s c rule: run_loop.induct)
  case (1 e mg s c)
  show ?case
  proof (cases "loop_counter s < max_loops s")
    case False
    then show ?thesis using 1(2) by (simp add: run_loop.simps [of e mg s c])
  next
    case True
    note it = iteration_steps [OF 1(2), of e mg c]
    show ?thesis
    proof (cases "fst (iteration e mg s c) = Continue")
      case c: True
      from 1(1) [OF True refl c it] show ?thesis
        using True c by (simp add: run_loop.simps [of e mg s c])
    next
      case c: False
      then show ?thesis using True it by (simp add: run_loop.simps [of e mg s c])
    qed
  qed
qed

lemma run_start_manager [simp]: "hitl_manager (snd (run_start s task)) = hitl_manager s"
  by (simp add: run_start_def Let_def split_beta alloc_dict_def)

lemma run_steps:
  "mgr_steps (hitl_manager s) (hitl_manager (snd (run e s task)))"
  unfolding run_def run_exit_def Let_def split_beta
  by (simp add: run_loop_steps mgr_steps.same)

subsection \<open>Identifiers are not reused\<close>







subsection \<open>Properties of the log that every operation keeps\<close>

definition decisions_human :: "HITLTrace list \<Rightarrow> bool" where
  "decisions_human ts =
     (\<forall>t \<in> set ts. t_event_type t \<in> {APPROVED, REJECTED, MODIFIED} \<longrightarrow> t_actor t = ''human'')"

lemma process_human_decision_traces:
  "hitl_traces (snd (process_human_decision m h fid dec fb ma ra)) = hitl_traces m
   \<or> (\<exists>t. hitl_traces (snd (process_human_decision m h fid dec fb ma ra)) = hitl_traces m @ [t]
          \<and> t_event_type t \<in> {APPROVED, REJECTED, MODIFIED}
          \<and> t_actor t = ''human'' \<and> t_freeze_id t = Some fid)"
proof -
  from process_human_decision_cases [of m fid dec h fb ma ra]
  show ?thesis
  proof
    assume "\<exists>d fr. map_of (frozen_states m) fid = Some fr
        \<and> (dec = ''approve'' \<or> dec = ''reject'' \<or> dec = ''modify'')
        \<and> process_human_decision m h fid dec fb ma ra
            = (Inr d, snd (log_trace m (decision_event dec) (Some fid) (f_pending_action fr)
                             (Some dec) fb ma ra ''human''))"
    then obtain d and fr :: FrozenCognitiveState where "process_human_decision m h fid dec fb ma ra
            = (Inr d, snd (log_trace m (decision_event dec) (Some fid) (f_pending_action fr)
                             (Some dec) fb ma ra ''human''))" by blast
    then show ?thesis by (simp add: decision_event_def)
  next
    assume "\<exists>err. process_human_decision m h fid dec fb ma ra = (Inl err, m)"
    then show ?thesis by auto
  qed
qed

lemma decisions_human_snoc:
  "decisions_human (ts @ [t])
     = (decisions_human ts
        \<and> (t_event_type t \<in> {APPROVED, REJECTED, MODIFIED} \<longrightarrow> t_actor t = ''human''))"
  by (auto simp: decisions_human_def)

lemma decisions_human_log:
  assumes "decisions_human (hitl_traces m)"
    and "ev \<in> {APPROVED, REJECTED, MODIFIED} \<longrightarrow> actor = ''human''"
  shows "decisions_human (hitl_traces (snd (log_trace m ev fid pa hdec hf ma dr actor)))"
  using assms by (simp add: decisions_human_snoc)

lemma decisions_human_steps:
  "mgr_steps m m' \<Longrightarrow> decisions_human (hitl_traces m) \<Longrightarrow> decisions_human (hitl_traces m')"
proof (induction rule: mgr_steps.induct)
  case (same m)
  then show ?case .
next
  case (frozen m m1 h lc c ms ev cx mp lv rs)
  then have dh: "decisions_human (hitl_traces m1)" by blast
  obtain t where t: "hitl_traces (fst (snd (freeze_state m1 h lc c ms ev cx mp lv rs)))
                       = hitl_traces m1 @ [t]" "t_event_type t = STATE_FROZEN"
    using freeze_state_traces [of m1 h lc c ms ev cx mp lv rs] by blast
  show ?case
    by (simp only: t(1) decisions_human_snoc) (simp add: dh t(2))
next
  case (thawed m m1 fid)
  then have dh: "decisions_human (hitl_traces m1)" by blast
  show ?case
  proof (cases "map_of (frozen_states m1) fid")
    case None
    then show ?thesis using dh by (simp add: thaw_state_absent)
  next
    case (Some fr)
    show ?thesis
      using decisions_human_log [OF dh, of STATE_THAWED "''system''"]
      by (simp add: thaw_state_present [OF Some])
  qed
next
  case (requested m m1 h fr)
  then have dh: "decisions_human (hitl_traces m1)" by blast
  show ?case
    using decisions_human_log [OF dh, of APPROVAL_REQUESTED "''system''"]
    by (simp add: request_approval_def split_beta Let_def)
next
  case (decided m m1 h fid dec fb ma ra)
  then have dh: "decisions_human (hitl_traces m1)" by blast
  from process_human_decision_traces [of m1 h fid dec fb ma ra]
  show ?case
  proof
    assume "hitl_traces (snd (process_human_decision m1 h fid dec fb ma ra)) = hitl_traces m1"
    with dh show ?thesis by simp
  next
    assume "\<exists>t. hitl_traces (snd (process_human_decision m1 h fid dec fb ma ra))
                  = hitl_traces m1 @ [t]
              \<and> t_event_type t \<in> {APPROVED, REJECTED, MODIFIED}
              \<and> t_actor t = ''human'' \<and> t_freeze_id t = Some fid"
    then obtain t where t: "hitl_traces (snd (process_human_decision m1 h fid dec fb ma ra))
                  = hitl_traces m1 @ [t]" "t_actor t = ''human''" by blast
    show ?thesis by (simp only: t(1) decisions_human_snoc) (simp add: dh t(2))
  qed
next
  case (cleaned m m1 fid)
  then show ?case by (simp add: cleanup_frozen_state_def)
qed














subsection \<open>Resumption goes through the manager's operations too\<close>

lemma continue_execution_steps:
  "mgr_steps m0 (hitl_manager s) \<Longrightarrow> mgr_steps m0 (hitl_manager (snd (continue_execution e s c)))"
  unfolding continue_execution_def Let_def split_beta
  by (simp add: run_loop_steps)

lemma resume_steps:
  "mgr_steps (hitl_manager s) (hitl_manager (snd (resume_from_freeze e s fid dec fb ma ra)))"
proof -
  obtain r m1 where p: "process_human_decision (hitl_manager s) (objects s) fid dec fb ma ra = (r, m1)"
    by (cases "process_human_decision (hitl_manager s) (objects s) fid dec fb ma ra")
  have m1: "mgr_steps (hitl_manager s) m1"
    using mgr_steps.decided [OF mgr_steps.same, of "hitl_manager s" "objects s" fid dec fb ma ra] p
    by simp
  show ?thesis
  proof (cases r)
    case (Inl err)
    with p m1 show ?thesis by (simp add: resume_from_freeze_def)
  next
    case (Inr result)
    show ?thesis
    proof (cases "map_of (frozen_states m1) fid")
      case None
      with p m1 Inr show ?thesis by (simp add: resume_from_freeze_def)
    next
      case (Some frozen)
      have m2: "mgr_steps (hitl_manager s) (hitl_manager (resume_restored s m1 frozen fid))"
        using mgr_steps.thawed [OF m1, of fid]
        by (simp add: resume_restored_def restore_from_def Let_def split_beta)
      have "mgr_steps (hitl_manager s)
              (hitl_manager (snd (resume_continue e (resume_restored s m1 frozen fid) frozen
                                    (d_next_action result) fb)))"
        using m2
        by (auto simp: resume_continue_def Let_def split_beta
                 split: next_action.splits intro!: continue_execution_steps)
      then show ?thesis
        using p Inr Some by (simp add: resume_from_freeze_def split_beta)
    qed
  qed
qed



subsection \<open>The actor of a decision event\<close>

text \<open>
  C10. Every approved, rejected or modified event that \<open>process_human_decision\<close> appends
  carries the actor "human". This holds for the auto-approve handler, whose decision no
  person took, and for the approval of a notify-level intervention without a handler,
  which the intervention check makes through the same call. So if the decision events of
  the log carry "human" before the intervention check, a run or a resumption, they all do
  afterwards: the log never shows a decision as made by the system.
\<close>

theorem decision_events_carry_human:
  "(\<exists>ts. hitl_traces (snd (process_human_decision m h fid dec fb ma ra)) = hitl_traces m @ ts
          \<and> (\<forall>t \<in> set ts. t_event_type t \<in> {APPROVED, REJECTED, MODIFIED}
                             \<and> t_actor t = ''human''))
   \<and> (\<exists>ts. hitl_traces (snd (fst (handle_intervention e True m h rq))) = hitl_traces m @ ts
           \<and> (\<forall>t \<in> set ts. t_event_type t = APPROVED \<and> t_actor t = ''human''))
   \<and> (decisions_human (hitl_traces (hitl_manager s))
        \<longrightarrow> decisions_human (hitl_traces (hitl_manager (snd (hitl_check e s c x))))
            \<and> decisions_human (hitl_traces (hitl_manager (snd (run e s task))))
            \<and> decisions_human
                 (hitl_traces (hitl_manager (snd (resume_from_freeze e s fid dec fb ma ra)))))"
proof (intro conjI impI)
  from process_human_decision_traces [of m h fid dec fb ma ra]
  show "\<exists>ts. hitl_traces (snd (process_human_decision m h fid dec fb ma ra)) = hitl_traces m @ ts
          \<and> (\<forall>t \<in> set ts. t_event_type t \<in> {APPROVED, REJECTED, MODIFIED}
                             \<and> t_actor t = ''human'')"
  proof
    assume "hitl_traces (snd (process_human_decision m h fid dec fb ma ra)) = hitl_traces m"
    then show ?thesis by (intro exI [of _ "[]"]) simp
  next
    assume "\<exists>t. hitl_traces (snd (process_human_decision m h fid dec fb ma ra))
                  = hitl_traces m @ [t]
              \<and> t_event_type t \<in> {APPROVED, REJECTED, MODIFIED}
              \<and> t_actor t = ''human'' \<and> t_freeze_id t = Some fid"
    then obtain t where "hitl_traces (snd (process_human_decision m h fid dec fb ma ra))
                  = hitl_traces m @ [t]" "t_event_type t \<in> {APPROVED, REJECTED, MODIFIED}"
        "t_actor t = ''human''" by blast
    then show ?thesis by (intro exI [of _ "[t]"]) simp
  qed
next
  have auto_call: "snd (fst (handle_intervention e True m h rq))
                     = snd (process_human_decision m h (r_freeze_id rq) ''approve'' None None
                              (Some ''Auto-approved for testing''))"
    by (simp add: handle_intervention_def)
  from process_human_decision_cases
         [of m "r_freeze_id rq" "''approve''" h None None "Some ''Auto-approved for testing''"]
  show "\<exists>ts. hitl_traces (snd (fst (handle_intervention e True m h rq))) = hitl_traces m @ ts
           \<and> (\<forall>t \<in> set ts. t_event_type t = APPROVED \<and> t_actor t = ''human'')"
  proof
    assume "\<exists>d fr. map_of (frozen_states m) (r_freeze_id rq) = Some fr
        \<and> (''approve'' = ''approve'' \<or> ''approve'' = ''reject'' \<or> ''approve'' = ''modify'')
        \<and> process_human_decision m h (r_freeze_id rq) ''approve'' None None
              (Some ''Auto-approved for testing'')
            = (Inr d, snd (log_trace m (decision_event ''approve'') (Some (r_freeze_id rq))
                             (f_pending_action fr) (Some ''approve'') None None
                             (Some ''Auto-approved for testing'') ''human''))"
    then obtain d fr where "map_of (frozen_states m) (r_freeze_id rq) = Some fr"
      "process_human_decision m h (r_freeze_id rq) ''approve'' None None
              (Some ''Auto-approved for testing'')
            = (Inr d, snd (log_trace m (decision_event ''approve'') (Some (r_freeze_id rq))
                             (f_pending_action fr) (Some ''approve'') None None
                             (Some ''Auto-approved for testing'') ''human''))" by blast
    then show ?thesis
      by (intro exI [of _ "[fst (log_trace m (decision_event ''approve'') (Some (r_freeze_id rq))
                             (f_pending_action fr) (Some ''approve'') None None
                             (Some ''Auto-approved for testing'') ''human'')]"])
         (simp add: auto_call decision_event_def)
  next
    assume "\<exists>err. process_human_decision m h (r_freeze_id rq) ''approve'' None None
                    (Some ''Auto-approved for testing'') = (Inl err, m)"
    then show ?thesis by (intro exI [of _ "[]"]) (auto simp: auto_call)
  qed
next
  assume dh: "decisions_human (hitl_traces (hitl_manager s))"
  show "decisions_human (hitl_traces (hitl_manager (snd (hitl_check e s c x))))"
    by (rule decisions_human_steps [OF hitl_check_steps [OF mgr_steps.same] dh])
  show "decisions_human (hitl_traces (hitl_manager (snd (run e s task))))"
    by (rule decisions_human_steps [OF run_steps dh])
  show "decisions_human
          (hitl_traces (hitl_manager (snd (resume_from_freeze e s fid dec fb ma ra))))"
    by (rule decisions_human_steps [OF resume_steps dh])
qed

definition demo_requested :: "approval_request \<times> HITLManager" where
  \<comment> \<open>the approval request for the frozen send-email proposal\<close>
  "demo_requested = request_approval demo_manager demo_store (fst demo_freeze)"

lemma demo_manager_actors:
  "map (\<lambda>t. (t_event_type t, t_actor t)) (hitl_traces demo_manager) = [(STATE_FROZEN, ''system'')]"
  using freeze_state_traces [of "new_manager default_policy" demo_heap 3 1 2 3 4 5 APPROVE
          "HighRiskTool ''send_email''"]
  by (auto simp: demo_manager_def demo_freeze_def new_manager_def)

theorem decision_events_carry_human_witness:
  "decisions_human (hitl_traces (hitl_manager demo_scl))
   \<and> decisions_human (hitl_traces (hitl_manager (snd (run demo_env demo_scl ''task''))))
   \<and> map (\<lambda>t. (t_event_type t, t_actor t))
        (hitl_traces (snd (fst (handle_intervention demo_env True (snd demo_requested) demo_store
                                  (fst demo_requested)))))
       = [(STATE_FROZEN, ''system''), (APPROVAL_REQUESTED, ''system''), (APPROVED, ''human'')]"
proof -
  have dh: "decisions_human (hitl_traces (hitl_manager demo_scl))"
    using demo_manager_actors by (auto simp: decisions_human_def demo_scl_def)
  from decision_events_carry_human
         [of "snd demo_requested" demo_store "''FREEZE-0001''" "''approve''" None None
             "Some ''Auto-approved for testing''" demo_env "fst demo_requested" demo_scl 1 2
             "''task''"] dh
  have run: "decisions_human (hitl_traces (hitl_manager (snd (run demo_env demo_scl ''task''))))"
    by blast
  have st: "map_of (frozen_states (snd demo_requested)) ''FREEZE-0001'' = Some (fst demo_freeze)"
    by (simp add: demo_requested_def demo_manager_facts)
  have id: "r_freeze_id (fst demo_requested) = ''FREEZE-0001''"
    by (simp add: demo_requested_def demo_freeze_def new_manager_def fmt_small)
  have "map (\<lambda>t. (t_event_type t, t_actor t))
          (hitl_traces (snd (fst (handle_intervention demo_env True (snd demo_requested) demo_store
                                    (fst demo_requested)))))
        = [(STATE_FROZEN, ''system''), (APPROVAL_REQUESTED, ''system''), (APPROVED, ''human'')]"
  proof -
    have call: "handle_intervention demo_env True (snd demo_requested) demo_store (fst demo_requested)
                  = (process_human_decision (snd demo_requested) demo_store ''FREEZE-0001''
                       ''approve'' None None (Some ''Auto-approved for testing''), demo_store)"
      by (simp only: handle_intervention_def id if_True)
    have tr: "map (\<lambda>t. (t_event_type t, t_actor t)) (hitl_traces (snd demo_requested))
                = [(STATE_FROZEN, ''system''), (APPROVAL_REQUESTED, ''system'')]"
      by (simp add: demo_requested_def demo_manager_actors)
    show ?thesis
      by (simp only: call fst_conv process_human_decision_ok [OF st disjI1 [OF refl]] snd_conv)
         (simp add: decision_event_def tr)
  qed
  with dh run show ?thesis by blast
qed

subsection \<open>One freeze event for each snapshot, ahead of its thaw events\<close>





section \<open>The validator\<close>

definition proposed_of :: "heap \<Rightarrow> addr \<Rightarrow> action" where
  \<comment> \<open>\<open>cognition_output.get("proposed_action", {})\<close>, read through the reference\<close>
  "proposed_of h c = (case proposed_action (cogs h c) of None \<Rightarrow> empty_action | Some a \<Rightarrow> acts h a)"

definition duplicate_call :: "env \<Rightarrow> scl \<Rightarrow> addr \<Rightarrow> bool" where
  \<comment> \<open>a tool name is given and the key of (tool name, parameters) is in the evidence cache\<close>
  "duplicate_call e s c =
     (tool_given (proposed_of (objects s) c)
      \<and> has_evidence (memory s)
           (evidence_id e (the (tool_name (proposed_of (objects s) c)))
              (action_parameters (proposed_of (objects s) c))))"

lemma mark_validated_fields [simp]:
  "acts (mark_validated h c) = acts h"
  "proposed_action (cogs (mark_validated h c) c) = proposed_action (cogs h c)"
  "evidence_refs (cogs (mark_validated h c) c) = evidence_refs (cogs h c)"
  "is_final_action (cogs (mark_validated h c) c) = is_final_action (cogs h c)"
  "control_validated (cogs (mark_validated h c) c) = True"
  by (simp_all add: mark_validated_def)

lemma control_objects:
  "objects (snd (control e s c))
     = (if is_final_action (cogs (objects s) c) then mark_validated (objects s) c else objects s)"
  by (simp add: control_def Let_def split_beta)

lemma control_result:
  "fst (control e s c)
     = (if duplicate_call e s c
        then (False, ''REJECTED: Redundant tool call (evidence already in Memory)'')
        else if must_cite_stored_evidence (metaprompt s)
                \<and> no_evidence (evidence_refs (cogs (objects s) c))
        then (False, ''VIOLATIONS: Missing evidence citations'')
        else (True, ''PASS''))"
  by (cases "is_final_action (cogs (objects s) c)"; cases "proposed_action (cogs (objects s) c)")
     (simp_all add: control_def Let_def split_beta validate_def duplicate_call_def proposed_of_def)

text \<open>
  C6. When the output is marked final, \<open>control\<close> sets its control-validated flag
  before the governance rules are evaluated: the flag is set in the object afterwards, and
  the rules, which would have reported a final action without validation on the unflagged
  output, do not report it. Apart from the rules, when a tool name is given and the key
  derived from the tool name and the parameters is in the evidence cache, the result is
  failed with the duplicate-call message, whatever the rules said. Otherwise the result is
  that of the rules.
\<close>

theorem control_flags_final_and_rejects_duplicates:
  "(is_final_action (cogs (objects s) c)
      \<longrightarrow> control_validated (cogs (objects (snd (control e s c))) c)
          \<and> (\<not> control_validated (cogs (objects s) c)
               \<longrightarrow> \<not> fst (validate (metaprompt s) (cogs (objects s) c))))
   \<and> fst (control e s c)
       = (if duplicate_call e s c
          then (False, ''REJECTED: Redundant tool call (evidence already in Memory)'')
          else if must_cite_stored_evidence (metaprompt s)
                  \<and> no_evidence (evidence_refs (cogs (objects s) c))
          then (False, ''VIOLATIONS: Missing evidence citations'')
          else (True, ''PASS''))
   \<and> (duplicate_call e s c
        \<longrightarrow> fst (control e s c)
              = (False, ''REJECTED: Redundant tool call (evidence already in Memory)''))"
  by (simp add: control_result control_objects validate_def Let_def)

definition control_demo :: scl where
  "control_demo =
     (new_scl [] new_metaprompt default_policy 20 ''disabled'')
       \<lparr>objects := demo_heap,
        memory := store_evidence new_memory
                    (evidence_id demo_env ''send_email''
                       [(''recipient'', JStr ''test-scl@test.com''),
                        (''subject'', JStr ''Travel Plan: Miami'')])
                    (JStr ''sent'')\<rparr>"

theorem control_flags_final_and_rejects_duplicates_witness:
  "is_final_action (cogs (objects control_demo) 1)
   \<and> \<not> control_validated (cogs (objects control_demo) 1)
   \<and> duplicate_call demo_env control_demo 1
   \<and> \<not> fst (validate (metaprompt control_demo) (cogs (objects control_demo) 1))
   \<and> control_validated (cogs (objects (snd (control demo_env control_demo 1))) 1)
   \<and> fst (control demo_env control_demo 1)
       = (False, ''REJECTED: Redundant tool call (evidence already in Memory)'')"
proof -
  have c1: "cogs (objects control_demo) 1
              = \<lparr>reasoning = Some ''All weather data collected. Sending email to confirm destination.'',
                 proposed_action = Some 0,
                 evidence_refs = Some [''weather_sf'', ''weather_miami'', ''weather_atlanta''],
                 is_final_action = True, confidence = None, control_validated = False\<rparr>"
    by (simp add: control_demo_def demo_heap_def)
  have a0: "proposed_of (objects control_demo) 1
              = \<lparr>tool_name = Some ''send_email'',
                 parameters = Some [(''recipient'', JStr ''test-scl@test.com''),
                                    (''subject'', JStr ''Travel Plan: Miami'')]\<rparr>"
    using c1 by (simp add: proposed_of_def) (simp add: control_demo_def demo_heap_def)
  have fin: "is_final_action (cogs (objects control_demo) 1)"
    and ncv: "\<not> control_validated (cogs (objects control_demo) 1)"
    using c1 by simp_all
  have dup: "duplicate_call demo_env control_demo 1"
    using a0
    by (simp add: duplicate_call_def tool_given_def action_parameters_def)
       (simp add: control_demo_def has_evidence_def store_evidence_def new_memory_def)
  from control_flags_final_and_rejects_duplicates [of control_demo 1 demo_env] fin ncv dup
  show ?thesis by simp
qed

section \<open>Snapshots and the live objects\<close>

subsection \<open>What an allocation and a freeze do to the object store\<close>

lemma alloc_dict_simps [simp]:
  "fst (alloc_dict h d) = next_addr h"
  "dicts (snd (alloc_dict h d)) = (dicts h)(next_addr h := d)"
  "cogs (snd (alloc_dict h d)) = cogs h"
  "acts (snd (alloc_dict h d)) = acts h"
  "next_addr (snd (alloc_dict h d)) = Suc (next_addr h)"
  by (simp_all add: alloc_dict_def)

lemma alloc_cog_simps [simp]:
  "fst (alloc_cog h c) = next_addr h"
  "dicts (snd (alloc_cog h c)) = dicts h"
  "cogs (snd (alloc_cog h c)) = (cogs h)(next_addr h := c)"
  "acts (snd (alloc_cog h c)) = acts h"
  "next_addr (snd (alloc_cog h c)) = Suc (next_addr h)"
  by (simp_all add: alloc_cog_def)

lemma alloc_act_simps [simp]:
  "fst (alloc_act h a) = next_addr h"
  "dicts (snd (alloc_act h a)) = dicts h"
  "cogs (snd (alloc_act h a)) = cogs h"
  "acts (snd (alloc_act h a)) = (acts h)(next_addr h := a)"
  "next_addr (snd (alloc_act h a)) = Suc (next_addr h)"
  by (simp_all add: alloc_act_def)

lemma freeze_state_old:
  assumes "a < next_addr h"
  shows "dicts (snd (snd (freeze_state m h lc c ms ev cx mp lv rs))) a = dicts h a"
    and "cogs (snd (snd (freeze_state m h lc c ms ev cx mp lv rs))) a = cogs h a"
    and "acts (snd (snd (freeze_state m h lc c ms ev cx mp lv rs))) a = acts h a"
  using assms
  by (cases "proposed_action (cogs h c)";
      simp add: freeze_state_def deepcopy_cog_def deepcopy_dict_def Let_def split_beta
        generate_freeze_id_def)+

lemma freeze_state_next:
  "next_addr (snd (snd (freeze_state m h lc c ms ev cx mp lv rs))) = next_addr h + 6"
  by (cases "proposed_action (cogs h c)";
      simp add: freeze_state_def deepcopy_cog_def deepcopy_dict_def Let_def split_beta
        generate_freeze_id_def)

lemma freeze_state_copies:
  assumes "ms < next_addr h" "ev < next_addr h" "cx < next_addr h" "mp < next_addr h"
  shows "dicts (snd (snd (freeze_state m h lc c ms ev cx mp lv rs))) (next_addr h + 2) = dicts h ms"
    and "dicts (snd (snd (freeze_state m h lc c ms ev cx mp lv rs))) (next_addr h + 3) = dicts h ev"
    and "dicts (snd (snd (freeze_state m h lc c ms ev cx mp lv rs))) (next_addr h + 4) = dicts h cx"
    and "dicts (snd (snd (freeze_state m h lc c ms ev cx mp lv rs))) (next_addr h + 5) = dicts h mp"
  using assms
  by (cases "proposed_action (cogs h c)";
      simp add: freeze_state_def deepcopy_cog_def deepcopy_dict_def Let_def split_beta
        generate_freeze_id_def)+

lemma freeze_state_cog_copy:
  assumes "c < next_addr h"
  shows "view_cog (snd (snd (freeze_state m h lc c ms ev cx mp lv rs))) (Suc (next_addr h))
           = view_cog h c"
  using assms
  by (cases "proposed_action (cogs h c)";
      simp add: freeze_state_def deepcopy_cog_def deepcopy_dict_def Let_def split_beta
        generate_freeze_id_def view_cog_def)

lemma freeze_state_refs:
  "f_pending_action (fst (freeze_state m h lc c ms ev cx mp lv rs))
     = (case proposed_action (cogs h c) of None \<Rightarrow> next_addr h | Some pa \<Rightarrow> pa)"
  "f_cognition_output (fst (freeze_state m h lc c ms ev cx mp lv rs)) = Suc (next_addr h)"
  "f_memory_snapshot (fst (freeze_state m h lc c ms ev cx mp lv rs)) = next_addr h + 2"
  "f_evidence_cache (fst (freeze_state m h lc c ms ev cx mp lv rs)) = next_addr h + 3"
  "f_context (fst (freeze_state m h lc c ms ev cx mp lv rs)) = next_addr h + 4"
  "f_metaprompt_state (fst (freeze_state m h lc c ms ev cx mp lv rs)) = next_addr h + 5"
  by (cases "proposed_action (cogs h c)";
      simp add: freeze_state_def deepcopy_cog_def deepcopy_dict_def Let_def split_beta
        generate_freeze_id_def)+

subsection \<open>Resumption restores the state, and the loop counter only grows\<close>

lemma run_loop_counter: "loop_counter s \<le> loop_counter (snd (run_loop e mg s c))"
proof (induction e mg s c rule: run_loop.induct)
  case (1 e mg s c)
  show ?case
  proof (cases "loop_counter s < max_loops s \<and> fst (iteration e mg s c) = Continue")
    case True
    then have "loop_counter (snd (iteration e mg s c))
                 \<le> loop_counter (snd (run_loop e mg (snd (iteration e mg s c)) c))"
      using 1 by simp
    then show ?thesis using True by (simp add: run_loop.simps [of e mg s c])
  next
    case False
    then show ?thesis by (auto simp: run_loop.simps [of e mg s c] Let_def)
  qed
qed

lemma run_start_counter [simp]: "loop_counter (snd (run_start s task)) = loop_counter s"
  by (simp add: run_start_def retrieval_def Let_def split_beta alloc_dict_def)

lemma run_counter: "loop_counter s \<le> loop_counter (snd (run e s task))"
  using run_loop_counter [of "snd (run_start s task)" e True "fst (run_start s task)"]
  by (simp add: run_def run_exit_def split_beta)

lemma continue_execution_counter:
  "loop_counter s \<le> loop_counter (snd (continue_execution e s c))"
  using run_loop_counter [of s e False c] by (simp add: continue_execution_def split_beta)

lemma resume_continue_counter:
  "loop_counter s2 \<le> loop_counter (snd (resume_continue e s2 fr nxt fb))"
proof (cases nxt)
  case (Execute modified)
  then show ?thesis
    using continue_execution_counter
            [of "(ctx_set (snd (action e s2 (f_cognition_output fr) (Some modified))) (f_context fr)
                   ''last_action_result''
                   (fst (action e s2 (f_cognition_output fr) (Some modified))))\<lparr>is_resumed := True\<rparr>"
                e "f_context fr"]
    by (simp add: resume_continue_def Let_def split_beta)
next
  case (RetryCognition x)
  then show ?thesis
    using continue_execution_counter
            [of "(ctx_update s2 (f_context fr)
                    [(''human_rejected'', JBool True),
                     (''rejection_reason'',
                        JStr (case fb of None \<Rightarrow> ''Action rejected by human'' | Some f \<Rightarrow> f)),
                     (''retry_guidance'',
                        JStr ''Consider alternative approaches based on human feedback'')])
                  \<lparr>is_resumed := True\<rparr>" e "f_context fr"]
    by (simp add: resume_continue_def Let_def split_beta)
qed

lemma resume_restored_fields:
  "store (memory (resume_restored s m fr fid))
     = (case map_of (dicts (objects s) (f_memory_snapshot fr)) ''store'' of
          Some (JDict d) \<Rightarrow> d | _ \<Rightarrow> [])"
  "m_evidence_cache (memory (resume_restored s m fr fid)) = dicts (objects s) (f_evidence_cache fr)"
  "loop_counter (resume_restored s m fr fid) = f_loop_counter fr"
  "objects (resume_restored s m fr fid) = objects s"
  by (simp_all add: resume_restored_def restore_from_def restore_snapshot_def restore_evidence_def
        Let_def split_beta)

text \<open>
  C5. When the decision is accepted, \<open>resume_from_freeze\<close> is the rest of the resumption
  (the action or the rejection context, then the loop) run from a restored loop object:
  its working store is the \<open>store\<close> entry of the snapshot's memory snapshot, its evidence
  cache is the snapshot's evidence cache and its loop counter is the snapshot's loop
  counter, each taken as it is stored, not computed again. What \<open>get_snapshot\<close> and
  \<open>get_evidence_snapshot\<close> took is what \<open>restore_snapshot\<close> and \<open>restore_evidence\<close> put
  back. From there the counter only grows: at the end of the resumption it is at least the
  restored value, each pass of the loop adds one, and a loop and a run end with a counter
  no smaller than the one they began with.
\<close>

theorem resumption_restores_and_counter_grows:
  assumes "map_of (frozen_states (hitl_manager s)) fid = Some fr"
    and "dec = ''approve'' \<or> dec = ''reject'' \<or> dec = ''modify''"
  shows "(\<exists>m1. resume_from_freeze e s fid dec fb ma ra
             = map_prod Inr id
                 (resume_continue e (resume_restored s m1 fr fid) fr
                    (determine_next_action (objects s) dec fr ma) fb)
           \<and> store (memory (resume_restored s m1 fr fid))
               = (case map_of (dicts (objects s) (f_memory_snapshot fr)) ''store'' of
                    Some (JDict d) \<Rightarrow> d | _ \<Rightarrow> [])
           \<and> m_evidence_cache (memory (resume_restored s m1 fr fid))
               = dicts (objects s) (f_evidence_cache fr)
           \<and> loop_counter (resume_restored s m1 fr fid) = f_loop_counter fr)
         \<and> store (restore_snapshot mem (get_snapshot mem0)) = store mem0
         \<and> m_evidence_cache (restore_evidence mem (get_evidence_snapshot mem0))
             = m_evidence_cache mem0
         \<and> f_loop_counter fr \<le> loop_counter (snd (resume_from_freeze e s fid dec fb ma ra))
         \<and> loop_counter (snd (iteration e mg s c)) = loop_counter s + 1
         \<and> loop_counter s \<le> loop_counter (snd (run_loop e mg s c))
         \<and> loop_counter s \<le> loop_counter (snd (run e s task))"
proof -
  let ?m1 = "snd (log_trace (hitl_manager s) (decision_event dec) (Some fid) (f_pending_action fr)
                    (Some dec) fb ma ra ''human'')"
  note dec = process_human_decision_ok [OF assms, of "objects s" fb ma ra]
  have st: "map_of (frozen_states ?m1) fid = Some fr" using assms(1) by simp
  have eq: "resume_from_freeze e s fid dec fb ma ra
             = map_prod Inr id
                 (resume_continue e (resume_restored s ?m1 fr fid) fr
                    (determine_next_action (objects s) dec fr ma) fb)"
    by (simp add: resume_from_freeze_def dec assms(1) split_beta Let_def map_prod_def)
  have cnt: "f_loop_counter fr \<le> loop_counter (snd (resume_from_freeze e s fid dec fb ma ra))"
    using resume_continue_counter
            [of "resume_restored s ?m1 fr fid" e fr "determine_next_action (objects s) dec fr ma" fb]
    by (simp add: eq resume_restored_fields)
  have rt: "store (restore_snapshot mem (get_snapshot mem0)) = store mem0"
      "m_evidence_cache (restore_evidence mem (get_evidence_snapshot mem0)) = m_evidence_cache mem0"
    by (simp_all add: restore_snapshot_def get_snapshot_def restore_evidence_def
          get_evidence_snapshot_def)
  from eq have ex: "\<exists>m1. resume_from_freeze e s fid dec fb ma ra
             = map_prod Inr id
                 (resume_continue e (resume_restored s m1 fr fid) fr
                    (determine_next_action (objects s) dec fr ma) fb)
           \<and> store (memory (resume_restored s m1 fr fid))
               = (case map_of (dicts (objects s) (f_memory_snapshot fr)) ''store'' of
                    Some (JDict d) \<Rightarrow> d | _ \<Rightarrow> [])
           \<and> m_evidence_cache (memory (resume_restored s m1 fr fid))
               = dicts (objects s) (f_evidence_cache fr)
           \<and> loop_counter (resume_restored s m1 fr fid) = f_loop_counter fr"
    by (intro exI [of _ ?m1]) (simp only: resume_restored_fields simp_thms)
  from ex rt cnt run_loop_counter [of s e mg c] run_counter [of s e task]
  show ?thesis by (simp only: iteration_counter simp_thms)
qed

lemma demo_snapshot_dicts:
  "dicts demo_store (f_evidence_cache (fst demo_freeze))
     = [(''wx-001'', JDict [(''city'', JStr ''Miami''), (''temp'', JInt 78)])]"
  "dicts demo_store (f_memory_snapshot (fst demo_freeze))
     = [(''task'', JStr ''Check weather and send travel notification email''),
        (''weather_collected'', JBool True)]"
  "f_loop_counter (fst demo_freeze) = 3"
proof -
  have live: "(2::nat) < next_addr demo_heap" "(3::nat) < next_addr demo_heap"
      "(4::nat) < next_addr demo_heap" "(5::nat) < next_addr demo_heap"
    by (simp_all add: demo_heap_def)
  note cp = freeze_state_copies [OF live, of "new_manager default_policy" 3 1 APPROVE
               "HighRiskTool ''send_email''"]
  show "dicts demo_store (f_evidence_cache (fst demo_freeze))
     = [(''wx-001'', JDict [(''city'', JStr ''Miami''), (''temp'', JInt 78)])]"
    using cp(2) by (simp add: demo_store_def demo_freeze_def freeze_state_refs demo_heap_def)
  show "dicts demo_store (f_memory_snapshot (fst demo_freeze))
     = [(''task'', JStr ''Check weather and send travel notification email''),
        (''weather_collected'', JBool True)]"
    using cp(1) by (simp add: demo_store_def demo_freeze_def freeze_state_refs demo_heap_def)
  show "f_loop_counter (fst demo_freeze) = 3"
    by (simp add: demo_freeze_def)
qed

theorem resumption_restores_and_counter_grows_witness:
  "map_of (frozen_states (hitl_manager demo_scl)) ''FREEZE-0001'' = Some (fst demo_freeze)
   \<and> loop_counter demo_scl = 0
   \<and> (\<exists>m1. resume_from_freeze demo_env demo_scl ''FREEZE-0001'' ''approve'' None None None
             = map_prod Inr id
                 (resume_continue demo_env
                    (resume_restored demo_scl m1 (fst demo_freeze) ''FREEZE-0001'') (fst demo_freeze)
                    (determine_next_action (objects demo_scl) ''approve'' (fst demo_freeze) None)
                    None)
           \<and> store (memory (resume_restored demo_scl m1 (fst demo_freeze) ''FREEZE-0001'')) = []
           \<and> m_evidence_cache (memory (resume_restored demo_scl m1 (fst demo_freeze) ''FREEZE-0001''))
               = [(''wx-001'', JDict [(''city'', JStr ''Miami''), (''temp'', JInt 78)])]
           \<and> loop_counter (resume_restored demo_scl m1 (fst demo_freeze) ''FREEZE-0001'') = 3)
   \<and> 3 \<le> loop_counter (snd (resume_from_freeze demo_env demo_scl ''FREEZE-0001'' ''approve''
                               None None None))"
proof -
  have st: "map_of (frozen_states (hitl_manager demo_scl)) ''FREEZE-0001'' = Some (fst demo_freeze)"
    by (simp add: demo_scl_def demo_manager_facts)
  have obj: "objects demo_scl = demo_store" by (simp add: demo_scl_def)
  have zero: "loop_counter demo_scl = 0" by (simp add: demo_scl_def new_scl_def)
  from resumption_restores_and_counter_grows [OF st disjI1 [OF refl], of demo_env None None None
         "new_memory" "new_memory" True 0 "''task''"]
  have r: "(\<exists>m1. resume_from_freeze demo_env demo_scl ''FREEZE-0001'' ''approve'' None None None
             = map_prod Inr id
                 (resume_continue demo_env
                    (resume_restored demo_scl m1 (fst demo_freeze) ''FREEZE-0001'') (fst demo_freeze)
                    (determine_next_action (objects demo_scl) ''approve'' (fst demo_freeze) None)
                    None)
           \<and> store (memory (resume_restored demo_scl m1 (fst demo_freeze) ''FREEZE-0001'')) = []
           \<and> m_evidence_cache (memory (resume_restored demo_scl m1 (fst demo_freeze) ''FREEZE-0001''))
               = [(''wx-001'', JDict [(''city'', JStr ''Miami''), (''temp'', JInt 78)])]
           \<and> loop_counter (resume_restored demo_scl m1 (fst demo_freeze) ''FREEZE-0001'') = 3)"
    and c: "3 \<le> loop_counter (snd (resume_from_freeze demo_env demo_scl ''FREEZE-0001'' ''approve''
                               None None None))"
    by (simp_all add: obj demo_snapshot_dicts)
  from st zero r c show ?thesis by blast
qed

subsection \<open>The copies in a snapshot, and the pending action\<close>

text \<open>
  \<open>freeze_state\<close> passes the cognition output, the memory state, the evidence cache, the
  context and the metaprompt state through \<open>copy.deepcopy\<close>. These copies are new
  objects: whatever is written afterwards to the objects that were live at the freeze
  leaves them as they were, and thawing gives the stored snapshot back.
\<close>

definition unchanged_from :: "addr \<Rightarrow> heap \<Rightarrow> heap \<Rightarrow> bool" where
  \<comment> \<open>the second store comes from the first by writes to objects below the address only\<close>
  "unchanged_from n h h' =
     (\<forall>a. n \<le> a \<longrightarrow> dicts h' a = dicts h a \<and> cogs h' a = cogs h a \<and> acts h' a = acts h a)"

definition write_act :: "heap \<Rightarrow> addr \<Rightarrow> action \<Rightarrow> heap" where
  \<comment> \<open>an action dict is changed in place\<close>
  "write_act h a v = h\<lparr>acts := (acts h)(a := v)\<rparr>"

lemma snapshot_copies_survive:
  assumes live: "c < next_addr h" "ms < next_addr h" "ev < next_addr h" "cx < next_addr h"
      "mp < next_addr h"
    and frozen: "freeze_state m h lc c ms ev cx mp lv rs = (fr, m', h1)"
    and mutated: "unchanged_from (next_addr h) h1 h2"
  shows "fst (thaw_state m' (f_freeze_id fr)) = Some fr"
    and "dicts h2 (f_memory_snapshot fr) = dicts h ms"
    and "dicts h2 (f_evidence_cache fr) = dicts h ev"
    and "dicts h2 (f_context fr) = dicts h cx"
    and "dicts h2 (f_metaprompt_state fr) = dicts h mp"
    and "view_cog h2 (f_cognition_output fr) = view_cog h c"
proof -
  have fr: "fr = fst (freeze_state m h lc c ms ev cx mp lv rs)"
    and m': "m' = fst (snd (freeze_state m h lc c ms ev cx mp lv rs))"
    and h1: "h1 = snd (snd (freeze_state m h lc c ms ev cx mp lv rs))"
    using frozen by simp_all
  have "map_of (frozen_states m') (f_freeze_id fr) = Some fr"
    by (simp add: fr m' AList.update_conv')
  then show "fst (thaw_state m' (f_freeze_id fr)) = Some fr"
    by (simp add: thaw_state_present)
  show "dicts h2 (f_memory_snapshot fr) = dicts h ms"
    using mutated freeze_state_copies(1) [OF live(2-5), of m lc c lv rs]
    by (simp add: unchanged_from_def fr h1 freeze_state_refs)
  show "dicts h2 (f_evidence_cache fr) = dicts h ev"
    using mutated freeze_state_copies(2) [OF live(2-5), of m lc c lv rs]
    by (simp add: unchanged_from_def fr h1 freeze_state_refs)
  show "dicts h2 (f_context fr) = dicts h cx"
    using mutated freeze_state_copies(3) [OF live(2-5), of m lc c lv rs]
    by (simp add: unchanged_from_def fr h1 freeze_state_refs)
  show "dicts h2 (f_metaprompt_state fr) = dicts h mp"
    using mutated freeze_state_copies(4) [OF live(2-5), of m lc c lv rs]
    by (simp add: unchanged_from_def fr h1 freeze_state_refs)
  have "view_cog h2 (Suc (next_addr h)) = view_cog h1 (Suc (next_addr h))"
  proof -
    have c: "cogs h2 (Suc (next_addr h)) = cogs h1 (Suc (next_addr h))"
      using mutated by (simp add: unchanged_from_def)
    have "proposed_action (cogs h1 (Suc (next_addr h)))
            = map_option (\<lambda>pa. next_addr h) (proposed_action (cogs h c))"
      by (cases "proposed_action (cogs h c)";
          simp add: h1 freeze_state_def deepcopy_cog_def deepcopy_dict_def Let_def split_beta
            generate_freeze_id_def)
    moreover have "acts h2 (next_addr h) = acts h1 (next_addr h)"
      using mutated by (simp add: unchanged_from_def)
    ultimately show ?thesis
      by (cases "proposed_action (cogs h c)") (simp_all add: view_cog_def c)
  qed
  then show "view_cog h2 (f_cognition_output fr) = view_cog h c"
    using freeze_state_cog_copy [OF live(1), of m lc ms ev cx mp lv rs]
    by (simp add: fr h1 freeze_state_refs)
qed

text \<open>
  The pending action is the exception: it is \<open>cognition_output.get("proposed_action", {})\<close>
  with no copy, the live action dict itself.
\<close>

definition demo_mutated :: heap where
  \<comment> \<open>after the freeze the caller changes the tool name in the proposed action it still holds\<close>
  "demo_mutated = write_act demo_store 0 ((acts demo_store 0)\<lparr>tool_name := Some ''delete_data''\<rparr>)"

text \<open>
  C2. The claim that no field of the stored snapshot, the pending action included, is
  affected by a later write to the live cognition output does not hold of
  \<open>freeze_state\<close>. In the demonstration the send-email proposal is frozen; afterwards the
  tool name in the live proposed action is overwritten with \<open>delete_data\<close>. The snapshot
  that \<open>thaw_state\<close> returns has the live action dict as its pending action, which now
  names \<open>delete_data\<close>, while its deep-copied cognition output still proposes
  \<open>send_email\<close> and its evidence cache and memory snapshot are as they were at the freeze.
\<close>

theorem thawed_pending_action_shows_later_write:
  "map_option f_pending_action (fst (thaw_state demo_manager ''FREEZE-0001'')) = Some 0
   \<and> tool_name (acts demo_heap 0) = Some ''send_email''
   \<and> tool_name (acts demo_mutated 0) = Some ''delete_data''
   \<and> map_option tool_name
         (proposed_action (view_cog demo_mutated (f_cognition_output (fst demo_freeze))))
       = Some (Some ''send_email'')
   \<and> dicts demo_mutated (f_evidence_cache (fst demo_freeze))
       = [(''wx-001'', JDict [(''city'', JStr ''Miami''), (''temp'', JInt 78)])]
   \<and> dicts demo_mutated (f_memory_snapshot (fst demo_freeze))
       = [(''task'', JStr ''Check weather and send travel notification email''),
          (''weather_collected'', JBool True)]"
proof -
  have n: "next_addr demo_heap = 6" by (simp add: demo_heap_def)
  have p0: "proposed_action (cogs demo_heap 1) = Some 0" by (simp add: demo_heap_def)
  have live: "(1::nat) < next_addr demo_heap" "(2::nat) < next_addr demo_heap"
      "(3::nat) < next_addr demo_heap" "(4::nat) < next_addr demo_heap"
      "(5::nat) < next_addr demo_heap"
    by (simp_all add: n)
  obtain fr m' h1 where f: "freeze_state (new_manager default_policy) demo_heap 3 1 2 3 4 5 APPROVE
                   (HighRiskTool ''send_email'') = (fr, m', h1)"
    by (cases "freeze_state (new_manager default_policy) demo_heap 3 1 2 3 4 5 APPROVE
                   (HighRiskTool ''send_email'')") auto
  then have fr: "fst demo_freeze = fr" and h1: "demo_store = h1" and m': "demo_manager = m'"
    by (simp_all add: demo_freeze_def demo_store_def demo_manager_def)
  have pend: "f_pending_action fr = 0"
    using freeze_state_refs(1) [of "new_manager default_policy" demo_heap 3 1 2 3 4 5 APPROVE
            "HighRiskTool ''send_email''"] f p0
    by simp
  have mut: "unchanged_from (next_addr demo_heap) h1 demo_mutated"
    by (simp add: unchanged_from_def demo_mutated_def write_act_def h1 n)
  note surv = snapshot_copies_survive [OF live f mut]
  have thaw: "map_option f_pending_action (fst (thaw_state demo_manager ''FREEZE-0001'')) = Some 0"
    using demo_manager_facts(1) pend fr by (simp add: thaw_state_present)
  have t0: "tool_name (acts demo_heap 0) = Some ''send_email''" by (simp add: demo_heap_def)
  have t1: "tool_name (acts demo_mutated 0) = Some ''delete_data''"
    by (simp add: demo_mutated_def write_act_def)
  have cog: "map_option tool_name
         (proposed_action (view_cog demo_mutated (f_cognition_output (fst demo_freeze))))
       = Some (Some ''send_email'')"
    using surv(6) by (simp add: fr view_cog_def demo_heap_def)
  have ev: "dicts demo_mutated (f_evidence_cache (fst demo_freeze))
       = [(''wx-001'', JDict [(''city'', JStr ''Miami''), (''temp'', JInt 78)])]"
    using surv(3) by (simp add: fr demo_heap_def)
  have ms: "dicts demo_mutated (f_memory_snapshot (fst demo_freeze))
       = [(''task'', JStr ''Check weather and send travel notification email''),
          (''weather_collected'', JBool True)]"
    using surv(2) by (simp add: fr demo_heap_def)
  from thaw t0 t1 cog ev ms show ?thesis by blast
qed

end
